theory Spec2Isabelle
  imports Complex_Main
begin

section \<open>Tensors, errors and arithmetic\<close>

text \<open>
  The model of \<^verbatim>\<open>examples/rnn/Model.py\<close>. Tensor entries are real numbers: arithmetic
  is exact, and the inputs are finite. The tensor library does not raise on a division
  by zero; the quotient is \<^verbatim>\<open>nan\<close> or an infinity. Such a value is \<open>NotFinite\<close> here, and
  it stays so under the operations the program applies to a quotient afterwards
  (subtracting 1, multiplying by 100, dividing by a finite number).
  What the library raises (a shape mismatch, a kernel longer than its input, an index
  into an empty dimension, an input of a dtype it refuses) is an \<open>error\<close>.
\<close>

datatype error = RuntimeError | IndexError | ValueError | AttributeError

datatype fval = Fin real | NotFinite

text \<open>Sequencing of fallible steps: the first exception ends the call.\<close>

definition bind :: "error + 'a \<Rightarrow> ('a \<Rightarrow> error + 'b) \<Rightarrow> error + 'b" where
  "bind m f = (case m of Inl e \<Rightarrow> Inl e | Inr x \<Rightarrow> f x)"

text \<open>
  A two-dimensional tensor carries its second dimension, so that a tensor of shape
  (0 x T) has one. \<open>wf2\<close> is the type's invariant: every row has \<open>ncols\<close> entries.
\<close>

record 'a tensor2 =
  ncols :: nat
  rows :: "'a list list"

definition nrows :: "'a tensor2 \<Rightarrow> nat" where
  "nrows A = length (rows A)"

definition wf2 :: "'a tensor2 \<Rightarrow> bool" where
  "wf2 A = list_all (\<lambda>r. length r = ncols A) (rows A)"

text \<open>The tensor of shape (n x c) whose entry (b, t) is \<open>F b t\<close>.\<close>

definition tabulate2 :: "nat \<Rightarrow> nat \<Rightarrow> (nat \<Rightarrow> nat \<Rightarrow> 'a) \<Rightarrow> 'a tensor2" where
  "tabulate2 n c F = \<lparr>ncols = c, rows = map (\<lambda>b. map (F b) [0 ..< c]) [0 ..< n]\<rparr>"

text \<open>
  A tensor that the program receives carries its dtype: the prices of \<open>moving_average\<close>
  and \<open>create_indicators\<close> and the input of \<open>forward\<close>, where a dtype decides whether
  the library raises. The other operations of the program take every numeric dtype, and
  the dtype of a result is not modelled.
\<close>

datatype dtype = Float32 | Float64 | Int64

record 'a typed =
  dtype :: dtype
  array :: 'a

text \<open>An indicator is a tensor of shape (batch) or (batch x time).\<close>

datatype 'a tensor = T1 "'a list" | T2 "'a tensor2"

text \<open>True division: a zero divisor gives no finite number, and raises nothing.\<close>

fun fdiv :: "fval \<Rightarrow> real \<Rightarrow> fval" where
  "fdiv (Fin a) b = (if b = 0 then NotFinite else Fin (a / b))"
| "fdiv NotFinite b = NotFinite"

fun fsub :: "fval \<Rightarrow> real \<Rightarrow> fval" where
  "fsub (Fin a) b = Fin (a - b)"
| "fsub NotFinite b = NotFinite"

fun fmul :: "fval \<Rightarrow> real \<Rightarrow> fval" where
  "fmul (Fin a) b = Fin (a * b)"
| "fmul NotFinite b = NotFinite"

text \<open>
  Broadcasting of one dimension: equal sizes, or one of them 1; anything else is the
  library's RuntimeError. \<open>expand\<close> repeats the single entry of a dimension of size 1.
\<close>

definition bdim :: "nat \<Rightarrow> nat \<Rightarrow> error + nat" where
  "bdim a b = (if a = b then Inr a else if a = 1 then Inr b
               else if b = 1 then Inr a else Inl RuntimeError)"

definition expand :: "nat \<Rightarrow> 'a list \<Rightarrow> 'a list" where
  "expand n xs = (if length xs = n then xs else concat (replicate n xs))"

definition ewise2 :: "('a \<Rightarrow> 'b \<Rightarrow> 'c) \<Rightarrow> 'a tensor2 \<Rightarrow> 'b tensor2 \<Rightarrow> error + 'c tensor2" where
  "ewise2 f A B =
     bind (bdim (nrows A) (nrows B)) (\<lambda>n.
     bind (bdim (ncols A) (ncols B)) (\<lambda>c.
       Inr \<lparr>ncols = c,
            rows = map2 (\<lambda>ra rb. map2 f (expand c ra) (expand c rb))
                        (expand n (rows A)) (expand n (rows B))\<rparr>))"

text \<open>An elementwise operation on tensors of shape (n) and (m).\<close>

definition ewise1 :: "('a \<Rightarrow> 'b \<Rightarrow> 'c) \<Rightarrow> 'a list \<Rightarrow> 'b list \<Rightarrow> error + 'c list" where
  "ewise1 f xs ys =
     bind (bdim (length xs) (length ys)) (\<lambda>n. Inr (map2 f (expand n xs) (expand n ys)))"

text \<open>A tensor of shape (n) meets one of shape (m x c) as a tensor of shape (1 x n).\<close>

definition unsqueeze0 :: "'a list \<Rightarrow> 'a tensor2" where
  "unsqueeze0 v = \<lparr>ncols = length v, rows = [v]\<rparr>"

definition tdiv :: "fval tensor \<Rightarrow> real tensor2 \<Rightarrow> error + fval tensor" where
  "tdiv x d = (case x of
       T1 v \<Rightarrow> bind (ewise2 fdiv (unsqueeze0 v) d) (\<lambda>q. Inr (T2 q))
     | T2 A \<Rightarrow> bind (ewise2 fdiv A d) (\<lambda>q. Inr (T2 q)))"

definition map2d :: "('a \<Rightarrow> 'b) \<Rightarrow> 'a tensor2 \<Rightarrow> 'b tensor2" where
  "map2d f A = \<lparr>ncols = ncols A, rows = map (map f) (rows A)\<rparr>"

definition tmul :: "fval tensor \<Rightarrow> real \<Rightarrow> fval tensor" where
  "tmul x k = (case x of
       T1 v \<Rightarrow> T1 (map (\<lambda>a. fmul a k) v)
     | T2 A \<Rightarrow> T2 (map2d (\<lambda>a. fmul a k) A))"

text \<open>
  Slicing of the second dimension, \<^verbatim>\<open>A[:, start:]\<close> and \<^verbatim>\<open>A[:, :stop]\<close>, with Python's
  rules: a negative bound counts from the end, and bounds are clamped to the dimension.
\<close>

definition clamp_index :: "nat \<Rightarrow> int \<Rightarrow> nat" where
  "clamp_index n i = (if i < 0 then nat (max 0 (int n + i)) else min n (nat i))"

definition slice_from :: "int \<Rightarrow> 'a tensor2 \<Rightarrow> 'a tensor2" where
  "slice_from start A =
     (let s = clamp_index (ncols A) start
      in \<lparr>ncols = ncols A - s, rows = map (drop s) (rows A)\<rparr>)"

definition slice_to :: "int \<Rightarrow> 'a tensor2 \<Rightarrow> 'a tensor2" where
  "slice_to stop A =
     (let e = clamp_index (ncols A) stop
      in \<lparr>ncols = e, rows = map (take e) (rows A)\<rparr>)"

text \<open>\<^verbatim>\<open>A[:, -1]\<close>: the last column, an IndexError when there is no column.\<close>

definition select_last :: "'a tensor2 \<Rightarrow> error + 'a list" where
  "select_last A = (if ncols A = 0 then Inl IndexError else Inr (map last (rows A)))"

section \<open>The labeler\<close>

text \<open>\<^verbatim>\<open>categories[mask] = v\<close> on a tensor of shape (n) with a mask of the same shape.\<close>

definition mask_assign :: "'a list \<Rightarrow> bool list \<Rightarrow> 'a \<Rightarrow> 'a list" where
  "mask_assign cs msk v = map2 (\<lambda>c m. if m then v else c) cs msk"

definition to_categorical :: "real list \<Rightarrow> nat list" where
  "to_categorical data =
     (let categories = replicate (length data) 0;
          categories = mask_assign categories (map (\<lambda>v. v > - 0.3) data) 1;
          categories = mask_assign categories (map (\<lambda>v. v > 0.3) data) 2
      in categories)"

section \<open>The indicator engine\<close>

text \<open>
  \<^verbatim>\<open>conv1d\<close> of one row with a kernel, no padding and stride 1: entry \<open>i\<close> is the sum of
  the products of the kernel with the entries \<open>i, i + 1, ...\<close> of the row.
\<close>

definition conv_row :: "real list \<Rightarrow> real list \<Rightarrow> real list" where
  "conv_row kern row =
     map (\<lambda>i. sum_list (map2 (*) (take (length kern) (drop i row)) kern))
         [0 ..< length row - length kern + 1]"

text \<open>
  The library refuses a kernel longer than the input. It sends no empty batch to a
  convolution: the result is then empty, whatever the dtypes, and reading the single
  weight of a kernel of no entries (\<open>window \<le> 0\<close>) is an IndexError. For a batch that is
  not empty, a kernel of no entries is refused, and so is an input whose dtype is not
  the dtype of the kernel.
\<close>

definition conv1d :: "real tensor2 typed \<Rightarrow> real list typed \<Rightarrow> error + real tensor2" where
  "conv1d inp kern =
     (let A = array inp; k = length (array kern)
      in if ncols A < k then Inl RuntimeError
         else if nrows A = 0
           then (if k = 0 then Inl IndexError else Inr \<lparr>ncols = ncols A - k + 1, rows = []\<rparr>)
         else if k = 0 \<or> dtype inp \<noteq> dtype kern then Inl RuntimeError
         else Inr \<lparr>ncols = ncols A - k + 1, rows = map (conv_row (array kern)) (rows A)\<rparr>)"

text \<open>The kernel is built with \<^verbatim>\<open>dtype=torch.float64\<close>.\<close>

definition moving_average :: "real tensor2 typed \<Rightarrow> int \<Rightarrow> error + real tensor2" where
  "moving_average prices window =
     (let kern = \<lparr>dtype = Float64,
                  array = map (\<lambda>one. one / real_of_int window) (replicate (nat window) 1)\<rparr>
      in conv1d prices kern)"

definition percent_change :: "real tensor2 \<Rightarrow> error + fval tensor2" where
  "percent_change prices =
     bind (ewise2 (\<lambda>a b. fdiv (Fin a) b) (slice_from 1 prices) (slice_to (- 1) prices))
          (\<lambda>q. Inr (map2d (\<lambda>a. fsub a 1) q))"

text \<open>
  \<^verbatim>\<open>unfold\<close> of the prices, seen as images of one channel and width 1, with a kernel
  of size (window, 1): a tensor of shape (batch x window x L), L = T - window + 1, whose
  entry (b, k, l) is the price (b, l + k).
\<close>

record 'a tensor3 =
  dim1 :: nat
  dim2 :: nat
  blocks :: "'a list list list"

definition unfold :: "real tensor2 typed \<Rightarrow> int \<Rightarrow> error + real tensor3 typed" where
  "unfold prices window =
     (if window \<le> 0 \<or> int (ncols (array prices)) < window then Inl RuntimeError
      else let L = ncols (array prices) - nat window + 1
           in Inr \<lparr>dtype = dtype prices,
                    array = \<lparr>dim1 = nat window, dim2 = L,
                      blocks = map (\<lambda>row. map (\<lambda>k. map (\<lambda>l. row ! (l + k)) [0 ..< L])
                                                 [0 ..< nat window])
                                   (rows (array prices))\<rparr>\<rparr>)"

text \<open>The variance with Bessel's correction; of a single value it is not a number.\<close>

definition var_unbiased :: "real list \<Rightarrow> fval" where
  "var_unbiased xs =
     (let n = real (length xs); mean = sum_list xs / n
      in fdiv (Fin (sum_list (map (\<lambda>x. (x - mean)\<^sup>2) xs))) (n - 1))"

text \<open>
  \<^verbatim>\<open>torch.var(x, dim=1)\<close>; the library computes the variance of a floating-point tensor
  only.
\<close>

definition var_dim1 :: "real tensor3 typed \<Rightarrow> error + fval tensor2" where
  "var_dim1 x =
     (if dtype x = Int64 then Inl RuntimeError
      else Inr \<lparr>ncols = dim2 (array x),
                rows = map (\<lambda>blk. map (\<lambda>l. var_unbiased (map (\<lambda>r. r ! l) blk))
                                        [0 ..< dim2 (array x)])
                           (blocks (array x))\<rparr>)"

text \<open>\<^verbatim>\<open>int(window/k)\<close>: the quotient, rounded towards zero.\<close>

definition int_quot :: "int \<Rightarrow> int \<Rightarrow> int" where
  "int_quot window k = (if window < 0 then - ((- window) div k) else window div k)"

text \<open>\<^verbatim>\<open>if not series: a = a[:, -1]\<close>\<close>

definition latest :: "bool \<Rightarrow> 'a tensor2 \<Rightarrow> error + 'a tensor" where
  "latest series A =
     (if \<not> series then bind (select_last A) (\<lambda>v. Inr (T1 v)) else Inr (T2 A))"

definition create_indicators ::
  "real tensor2 typed \<Rightarrow> int \<Rightarrow> bool \<Rightarrow> error + (string \<rightharpoonup> fval tensor)" where
  "create_indicators prices window series =
     (let data = Map.empty;
          input_length = int (ncols (array prices)) - window + 1
      in
      bind (moving_average prices (int_quot window 2)) (\<lambda>ma.
      let malong = slice_from (- input_length) ma in
      bind (moving_average prices (int_quot window 6)) (\<lambda>ma.
      let mashort = slice_from (- input_length) ma in
      bind (ewise2 (-) mashort malong) (\<lambda>spread.
      bind (ewise2 (\<lambda>a b. fdiv (Fin a) b) spread malong) (\<lambda>macd1.
      bind (latest series macd1) (\<lambda>macd1.
      let data = data(''macd1'' \<mapsto> tmul macd1 100) in
      bind (moving_average prices window) (\<lambda>ma.
      let malong = slice_from (- input_length) ma in
      bind (moving_average prices (int_quot window 3)) (\<lambda>ma.
      let mashort = slice_from (- input_length) ma in
      bind (ewise2 (-) mashort malong) (\<lambda>spread.
      bind (ewise2 (\<lambda>a b. fdiv (Fin a) b) spread malong) (\<lambda>macd2.
      bind (latest series macd2) (\<lambda>macd2.
      let data = data(''macd2'' \<mapsto> tmul macd2 100) in
      bind (percent_change (array prices)) (\<lambda>pc.
      let pct = slice_from (- input_length) pc in
      bind (latest series pct) (\<lambda>pct.
      let data = data(''pct'' \<mapsto> tmul pct 100) in
      bind (unfold prices window) (\<lambda>x.
      bind (var_dim1 x) (\<lambda>var.
      bind (latest series var) (\<lambda>var.
      bind (tdiv var malong) (\<lambda>q.
      let data = data(''var'' \<mapsto> tmul q 100) in
      Inr data)))))))))))))))))"

text \<open>
  The indicators as the specification words them, for one row of prices: each is
  computed from the prices that end at one index \<open>e\<close>. \<open>window row e k\<close> is the \<open>k\<close>
  prices of the row of which the last is the price at index \<open>e\<close>.
\<close>

definition window :: "real list \<Rightarrow> nat \<Rightarrow> nat \<Rightarrow> real list" where
  "window row e k = take k (drop (e + 1 - k) row)"

definition window_mean :: "real list \<Rightarrow> nat \<Rightarrow> nat \<Rightarrow> real" where
  "window_mean row e k = sum_list (window row e k) / real k"

definition macd_at :: "real list \<Rightarrow> nat \<Rightarrow> nat \<Rightarrow> nat \<Rightarrow> fval" where
  "macd_at row e short long =
     fmul (fdiv (Fin (window_mean row e short - window_mean row e long))
                (window_mean row e long)) 100"

definition pct_at :: "real list \<Rightarrow> nat \<Rightarrow> fval" where
  "pct_at row e = fmul (fsub (fdiv (Fin (row ! e)) (row ! (e - 1))) 1) 100"

definition var_at :: "real list \<Rightarrow> nat \<Rightarrow> nat \<Rightarrow> fval" where
  "var_at row e w = fmul (fdiv (var_unbiased (window row e w)) (window_mean row e w)) 100"

section \<open>The evaluator\<close>

text \<open>
  \<^verbatim>\<open>argmax\<close> along the second dimension: the index of the first maximal entry of each
  row; the library refuses a dimension of size 0.
\<close>

fun argmax_from :: "nat \<Rightarrow> real \<Rightarrow> nat \<Rightarrow> real list \<Rightarrow> nat" where
  "argmax_from best v i [] = best"
| "argmax_from best v i (x # xs) =
     (if x > v then argmax_from i x (Suc i) xs else argmax_from best v (Suc i) xs)"

definition argmax_row :: "real list \<Rightarrow> nat" where
  "argmax_row xs = (case xs of [] \<Rightarrow> 0 | x # rest \<Rightarrow> argmax_from 0 x 1 rest)"

definition argmax :: "real tensor2 \<Rightarrow> error + nat list" where
  "argmax dst = (if ncols dst = 0 then Inl IndexError else Inr (map argmax_row (rows dst)))"

text \<open>\<^verbatim>\<open>torch.sum\<close> of a tensor of truth values counts the true ones.\<close>

definition count_true :: "bool list \<Rightarrow> nat" where
  "count_true bs = sum_list (map of_bool bs)"

definition stats :: "real tensor2 \<Rightarrow> real list \<Rightarrow> error + (string \<rightharpoonup> fval)" where
  "stats dst truth =
     bind (argmax dst) (\<lambda>dist_cat.
     let truth_cat = to_categorical truth in
     bind (ewise1 (=) dist_cat truth_cat) (\<lambda>same.
     let accuracy = fdiv (Fin (real (count_true same))) (real (length truth_cat));
         dist_pos = map (\<lambda>c. c = 2) dist_cat;
         truth_pos = map (\<lambda>c. c = 2) truth_cat
     in
     bind (ewise1 (\<and>) dist_pos truth_pos) (\<lambda>both.
     let correct = count_true both;
         precision = fdiv (Fin (real correct)) (real (count_true dist_pos));
         recall = fdiv (Fin (real correct)) (real (count_true truth_pos))
     in Inr [''accuracy'' \<mapsto> accuracy, ''precision'' \<mapsto> precision, ''recall'' \<mapsto> recall])))"

text \<open>
  The statistics as the specification words them, over the predicted categories and the
  labels of a batch: the fraction of exact matches, and precision and recall with
  category 2 as the positive class.
\<close>

definition matches :: "nat list \<Rightarrow> nat list \<Rightarrow> nat" where
  "matches pred lab = length (filter (\<lambda>(p, l). p = l) (zip pred lab))"

definition true_positives :: "nat list \<Rightarrow> nat list \<Rightarrow> nat" where
  "true_positives pred lab = length (filter (\<lambda>(p, l). p = 2 \<and> l = 2) (zip pred lab))"

definition positives :: "nat list \<Rightarrow> nat" where
  "positives cs = length (filter (\<lambda>c. c = 2) cs)"

definition accuracy_spec :: "nat list \<Rightarrow> nat list \<Rightarrow> fval" where
  "accuracy_spec pred lab = fdiv (Fin (real (matches pred lab))) (real (length lab))"

definition precision_spec :: "nat list \<Rightarrow> nat list \<Rightarrow> fval" where
  "precision_spec pred lab = fdiv (Fin (real (true_positives pred lab))) (real (positives pred))"

definition recall_spec :: "nat list \<Rightarrow> nat list \<Rightarrow> fval" where
  "recall_spec pred lab = fdiv (Fin (real (true_positives pred lab))) (real (positives lab))"

section \<open>The predictor network\<close>

text \<open>
  The library's modules, each with the shape its constructor fixes and with the values
  of its parameters, which the constructor draws at random and training changes.
\<close>

record linear =
  in_features :: nat
  out_features :: nat
  weight :: "real list list"
  bias :: "real list"

record batchnorm =
  num_features :: nat
  bn_weight :: "real list"
  bn_bias :: "real list"
  running_mean :: "real list"
  running_var :: "real list"
  eps :: real

record gru_cell =
  input_size :: nat
  hidden_size :: nat
  weight_ih :: "real list list"
  weight_hh :: "real list list"
  bias_ih :: "real list"
  bias_hh :: "real list"

datatype layer = Linear linear | BatchNorm1d batchnorm | ReLU

text \<open>The values of the parameters of one module, as a constructor could draw them.\<close>

type_synonym linear_values = "real list list \<times> real list"

type_synonym bn_values = "real list \<times> real list \<times> real list \<times> real list"

type_synonym gru_values = "real list list \<times> real list list \<times> real list \<times> real list"

type_synonym net_values = "nat \<Rightarrow> linear_values \<times> bn_values"

definition nn_Linear :: "nat \<Rightarrow> nat \<Rightarrow> linear_values \<Rightarrow> linear" where
  "nn_Linear i n p = \<lparr>in_features = i, out_features = n, weight = fst p, bias = snd p\<rparr>"

definition nn_BatchNorm1d :: "nat \<Rightarrow> bn_values \<Rightarrow> batchnorm" where
  "nn_BatchNorm1d n p =
     (case p of (g, b, m, v) \<Rightarrow>
        \<lparr>num_features = n, bn_weight = g, bn_bias = b, running_mean = m, running_var = v,
         eps = 1 / 100000\<rparr>)"

definition nn_GRUCell :: "nat \<Rightarrow> nat \<Rightarrow> gru_values \<Rightarrow> gru_cell" where
  "nn_GRUCell i h p =
     (case p of (wi, wh, bi, bh) \<Rightarrow>
        \<lparr>input_size = i, hidden_size = h, weight_ih = wi, weight_hh = wh,
         bias_ih = bi, bias_hh = bh\<rparr>)"

text \<open>\<open>x W\<^sup>T + b\<close> for one row \<open>x\<close>.\<close>

definition affine :: "real list list \<Rightarrow> real list \<Rightarrow> real list \<Rightarrow> real list" where
  "affine W b x = map2 (\<lambda>w c. sum_list (map2 (*) x w) + c) W b"

text \<open>
  The parameters of a module are float32, the default dtype, and a linear layer refuses
  an input of another dtype; \<open>dt\<close> is the dtype of the input.
\<close>

definition linear_forward :: "linear \<Rightarrow> dtype \<Rightarrow> real tensor2 \<Rightarrow> error + real tensor2" where
  "linear_forward l dt x =
     (if dt \<noteq> Float32 \<or> ncols x \<noteq> in_features l then Inl RuntimeError
      else Inr \<lparr>ncols = out_features l, rows = map (affine (weight l) (bias l)) (rows x)\<rparr>)"

definition column :: "nat \<Rightarrow> real list list \<Rightarrow> real list" where
  "column c rs = map (\<lambda>r. r ! c) rs"

definition col_mean :: "real list \<Rightarrow> real" where
  "col_mean xs = sum_list xs / real (length xs)"

definition var_biased :: "real list \<Rightarrow> real" where
  "var_biased xs = sum_list (map (\<lambda>x. (x - col_mean xs)\<^sup>2) xs) / real (length xs)"

text \<open>
  Batch normalisation of an input of shape (N x C). In training mode the statistics are
  those of the batch, and a batch of one row is refused; otherwise they are the running
  ones. In training mode the library also updates the running statistics of the module;
  the result of this call does not depend on them, and the model leaves the update out.
\<close>

definition batch_norm :: "bool \<Rightarrow> batchnorm \<Rightarrow> real tensor2 \<Rightarrow> error + real tensor2" where
  "batch_norm train bn x =
     (if train \<and> nrows x = 1 then Inl ValueError
      else if ncols x \<noteq> num_features bn then Inl RuntimeError
      else
        let mu = (if train then map (\<lambda>c. col_mean (column c (rows x))) [0 ..< ncols x]
                  else running_mean bn);
            va = (if train then map (\<lambda>c. var_biased (column c (rows x))) [0 ..< ncols x]
                  else running_var bn)
        in Inr \<lparr>ncols = ncols x,
                 rows = map (\<lambda>r. map (\<lambda>c. (r ! c - mu ! c) / sqrt (va ! c + eps bn)
                                             * bn_weight bn ! c + bn_bias bn ! c)
                                      [0 ..< ncols x])
                            (rows x)\<rparr>)"

definition relu :: "real tensor2 \<Rightarrow> real tensor2" where
  "relu x = map2d (max 0) x"

fun layer_forward :: "bool \<Rightarrow> layer \<Rightarrow> dtype \<Rightarrow> real tensor2 \<Rightarrow> error + real tensor2" where
  "layer_forward train (Linear l) dt x = linear_forward l dt x"
| "layer_forward train (BatchNorm1d bn) dt x = batch_norm train bn x"
| "layer_forward train ReLU dt x = Inr (relu x)"

text \<open>
  \<^verbatim>\<open>nn.Sequential\<close>: the layers in order. Every layer returns a tensor of the dtype of its
  input.
\<close>

fun sequential :: "bool \<Rightarrow> layer list \<Rightarrow> dtype \<Rightarrow> real tensor2 \<Rightarrow> error + real tensor2" where
  "sequential train [] dt x = Inr x"
| "sequential train (l # ls) dt x = bind (layer_forward train l dt x) (sequential train ls dt)"

definition sigmoid :: "real \<Rightarrow> real" where
  "sigmoid v = 1 / (1 + exp (- v))"

text \<open>
  The gated recurrent cell on an input of shape (N x I) and a hidden state of shape
  (N x H); the rows of its weights are the reset, update and new gates, in this order.
\<close>

definition gru_row :: "gru_cell \<Rightarrow> real list \<Rightarrow> real list \<Rightarrow> real list" where
  "gru_row g x h =
     (let H = hidden_size g;
          gi = affine (weight_ih g) (bias_ih g) x;
          gh = affine (weight_hh g) (bias_hh g) h
      in map (\<lambda>j. let r = sigmoid (gi ! j + gh ! j);
                       z = sigmoid (gi ! (H + j) + gh ! (H + j));
                       n = tanh (gi ! (2 * H + j) + r * gh ! (2 * H + j))
                   in (1 - z) * n + z * h ! j)
             [0 ..< H])"

definition gru_forward :: "gru_cell \<Rightarrow> real tensor2 \<Rightarrow> real tensor2 \<Rightarrow> error + real tensor2" where
  "gru_forward g x h =
     (if ncols x \<noteq> input_size g \<or> ncols h \<noteq> hidden_size g \<or> nrows x \<noteq> nrows h
      then Inl RuntimeError
      else Inr \<lparr>ncols = hidden_size g, rows = map2 (gru_row g) (rows x) (rows h)\<rparr>)"

text \<open>\<^verbatim>\<open>softmax(x, dim=1)\<close>\<close>

definition softmax :: "real tensor2 \<Rightarrow> real tensor2" where
  "softmax x =
     \<lparr>ncols = ncols x,
      rows = map (\<lambda>r. map (\<lambda>v. exp v / sum_list (map exp r)) r) (rows x)\<rparr>"

record MarketPredictor =
  recurrent :: bool
  finput_layer_sizes :: "nat list"
  foutput_layer_sizes :: "nat list"
  finput :: "layer list"
  foutput :: "layer list"
  gru :: "gru_cell option"
  training :: bool

definition create_net :: "nat list \<Rightarrow> bool \<Rightarrow> net_values \<Rightarrow> layer list" where
  "create_net layer_sizes omit_last_activation values =
     concat (map (\<lambda>i.
         [Linear (nn_Linear (layer_sizes ! i) (layer_sizes ! (i + 1)) (fst (values i))),
          BatchNorm1d (nn_BatchNorm1d (layer_sizes ! (i + 1)) (snd (values i)))]
         @ (if i < length layer_sizes - 2 \<or> \<not> omit_last_activation then [ReLU] else []))
       [0 ..< length layer_sizes - 1])"

text \<open>
  The constructor. A module is in training mode when it is built; \<open>training\<close> is the
  flag that \<^verbatim>\<open>train()\<close> and \<^verbatim>\<open>eval()\<close> set.
\<close>

definition init :: "nat \<Rightarrow> bool \<Rightarrow> net_values \<Rightarrow> net_values \<Rightarrow> gru_values \<Rightarrow> MarketPredictor" where
  "init input_channels rec vin vout vgru =
     (let sizes_in = [input_channels, 8, 16, 16];
          sizes_out = [16, 16, 8, 3]
      in \<lparr>recurrent = rec,
          finput_layer_sizes = sizes_in,
          foutput_layer_sizes = sizes_out,
          finput = create_net sizes_in False vin,
          foutput = create_net sizes_out True vout,
          gru = (if rec then Some (nn_GRUCell (last sizes_in) (last sizes_in) vgru) else None),
          training = True\<rparr>)"

text \<open>
  The input of \<open>forward\<close>: of shape (batch x time x channels) for a recurrent predictor,
  of shape (batch x channels) otherwise. Unpacking the shape of a tensor of another
  rank is a ValueError.
\<close>

datatype input = X3 "real tensor3 typed" | X2 "real tensor2 typed"

text \<open>\<^verbatim>\<open>reshape\<close> between (batch x time x c) and (batch * time x c), row-major.\<close>

definition flatten3 :: "real tensor3 \<Rightarrow> real tensor2" where
  "flatten3 x = \<lparr>ncols = dim2 x, rows = concat (blocks x)\<rparr>"

definition reshape3 :: "real tensor2 \<Rightarrow> nat \<Rightarrow> nat \<Rightarrow> nat \<Rightarrow> error + real tensor3" where
  "reshape3 y batch timesteps c =
     (if nrows y * ncols y \<noteq> batch * timesteps * c then Inl RuntimeError
      else let flat = concat (rows y)
           in Inr \<lparr>dim1 = timesteps, dim2 = c,
                    blocks = map (\<lambda>b. map (\<lambda>t. take c (drop ((b * timesteps + t) * c) flat))
                                            [0 ..< timesteps])
                                 [0 ..< batch]\<rparr>)"

text \<open>\<^verbatim>\<open>x_input[:, t, :]\<close>\<close>

definition select_time :: "real tensor3 \<Rightarrow> nat \<Rightarrow> real tensor2" where
  "select_time x t = \<lparr>ncols = dim2 x, rows = map (\<lambda>blk. blk ! t) (blocks x)\<rparr>"

definition zeros :: "nat \<Rightarrow> nat \<Rightarrow> real tensor2" where
  "zeros n c = \<lparr>ncols = c, rows = replicate n (replicate c 0)\<rparr>"

text \<open>The loop over the time steps.\<close>

fun gru_loop :: "gru_cell \<Rightarrow> real tensor3 \<Rightarrow> nat list \<Rightarrow> real tensor2 \<Rightarrow> error + real tensor2" where
  "gru_loop g x_input [] hidden = Inr hidden"
| "gru_loop g x_input (t # ts) hidden =
     bind (gru_forward g (select_time x_input t) hidden) (gru_loop g x_input ts)"

text \<open>
  The recurrent branch converts its input with \<^verbatim>\<open>x.float()\<close>; the other branch gives the
  input to the encoder as it is.
\<close>

definition forward :: "MarketPredictor \<Rightarrow> input \<Rightarrow> error + real tensor2" where
  "forward self x =
     (if recurrent self then
        (case x of
           X2 _ \<Rightarrow> Inl ValueError
         | X3 x \<Rightarrow>
             (case gru self of
                None \<Rightarrow> Inl AttributeError
              | Some cell \<Rightarrow>
                  let batch = length (blocks (array x)); timesteps = dim1 (array x);
                      channels = dim2 (array x) in
                  bind (sequential (training self) (finput self) Float32 (flatten3 (array x)))
                    (\<lambda>y.
                  bind (reshape3 y batch timesteps (last (finput_layer_sizes self))) (\<lambda>x_input.
                  let hidden = zeros batch (last (finput_layer_sizes self)) in
                  bind (gru_loop cell x_input [0 ..< timesteps] hidden) (\<lambda>hidden.
                  bind (sequential (training self) (foutput self) Float32 hidden) (\<lambda>x_output.
                  Inr (softmax x_output)))))))
      else
        (case x of
           X3 _ \<Rightarrow> Inl ValueError
         | X2 x \<Rightarrow>
             bind (sequential (training self) (finput self) (dtype x) (array x)) (\<lambda>x_input.
             bind (sequential (training self) (foutput self) (dtype x) x_input) (\<lambda>x_output.
             Inr (softmax x_output)))))"











section \<open>Properties\<close>

subsection \<open>Sequencing, shapes and broadcasting\<close>

lemma bind_Inr [simp]: "bind (Inr x) f = f x"
  by (simp add: bind_def)

lemma bind_Inl [simp]: "bind (Inl e) f = Inl e"
  by (simp add: bind_def)

lemma bdim_same [simp]: "bdim n n = Inr n"
  by (simp add: bdim_def)

lemma expand_same [simp]: "length xs = n \<Longrightarrow> expand n xs = xs"
  by (simp add: expand_def)

lemma wf2_nth: "wf2 A \<Longrightarrow> b < nrows A \<Longrightarrow> length (rows A ! b) = ncols A"
  by (simp add: wf2_def nrows_def list_all_length)

subsection \<open>The labeler\<close>

lemma to_categorical_map:
  "to_categorical data = map (\<lambda>v. if v > 0.3 then 2 else if v > - 0.3 then 1 else 0) data"
  by (induction data) (simp_all add: to_categorical_def mask_assign_def Let_def)



subsection \<open>Moving average\<close>

lemma sum_list_mult_replicate:
  "length xs = n \<Longrightarrow> sum_list (map2 (*) xs (replicate n c)) = sum_list xs * (c::real)"
  by (induction xs arbitrary: n) (auto simp: algebra_simps)

lemma sum_list_window:
  assumes "i + w \<le> length row"
  shows "sum_list (take w (drop i row)) = (\<Sum>j<w. (row ! (i + j) :: real))"
proof -
  have "min (length row - i) w = w" using assms by simp
  then show ?thesis using assms
    by (simp add: sum_list_sum_nth atLeast0LessThan)
qed

lemma conv_row_nth:
  assumes "i < length row - length kern + 1"
  shows "conv_row kern row ! i = sum_list (map2 (*) (take (length kern) (drop i row)) kern)"
  using assms unfolding conv_row_def by (simp del: upt_Suc)

lemma length_conv_row [simp]: "length (conv_row kern row) = length row - length kern + 1"
  by (simp add: conv_row_def del: upt_Suc)

lemma conv_row_mean:
  assumes "0 < w" "w \<le> length row" "i < length row - w + 1"
  shows "conv_row (replicate w (1 / real w)) row ! i = (\<Sum>j<w. row ! (i + j)) / real w"
proof -
  have "i + w \<le> length row" using assms by simp
  then show ?thesis using assms
    by (simp add: conv_row_nth sum_list_mult_replicate sum_list_window)
qed

lemma moving_average_conv:
  assumes "1 \<le> w" "w \<le> int (ncols prices)"
  shows "moving_average \<lparr>dtype = Float64, array = prices\<rparr> w =
           Inr \<lparr>ncols = ncols prices - nat w + 1,
                rows = map (conv_row (replicate (nat w) (1 / real_of_int w))) (rows prices)\<rparr>"
  using assms by (auto simp: moving_average_def conv1d_def Let_def nrows_def)

text \<open>
  C3, as amended: for float64 prices of shape (batch x T) and a window \<open>w\<close> with
  \<open>1 \<le> w \<le> T\<close>, \<open>moving_average\<close> returns a tensor of shape (batch x (T - w + 1)) whose
  entry \<open>i\<close> of each row is the arithmetic mean of the \<open>w\<close> consecutive prices of that row
  from index \<open>i\<close> on.
\<close>

theorem moving_average_mean:
  assumes "wf2 prices" "1 \<le> w" "w \<le> int (ncols prices)"
  shows "\<exists>ma. moving_average \<lparr>dtype = Float64, array = prices\<rparr> w = Inr ma \<and> wf2 ma \<and>
           nrows ma = nrows prices \<and> ncols ma = ncols prices - nat w + 1 \<and>
           (\<forall>b < nrows prices. \<forall>i < ncols prices - nat w + 1.
              rows ma ! b ! i = (\<Sum>j<nat w. rows prices ! b ! (i + j)) / real_of_int w)"
proof -
  let ?ma = "\<lparr>ncols = ncols prices - nat w + 1,
                rows = map (conv_row (replicate (nat w) (1 / real_of_int w))) (rows prices)\<rparr>"
  have eq: "moving_average \<lparr>dtype = Float64, array = prices\<rparr> w = Inr ?ma"
    using assms(2,3) by (rule moving_average_conv)
  have wf: "wf2 ?ma"
    using assms(1) by (simp add: wf2_def list_all_iff)
  have el: "rows ?ma ! b ! i = (\<Sum>j<nat w. rows prices ! b ! (i + j)) / real_of_int w"
    if "b < nrows prices" "i < ncols prices - nat w + 1" for b i
  proof -
    have len: "length (rows prices ! b) = ncols prices"
      using assms(1) that(1) by (rule wf2_nth)
    have "real (nat w) = real_of_int w" using assms(2) by simp
    moreover have "conv_row (replicate (nat w) (1 / real (nat w))) (rows prices ! b) ! i
        = (\<Sum>j<nat w. rows prices ! b ! (i + j)) / real (nat w)"
      using assms(2,3) that(2) len by (intro conv_row_mean) auto
    ultimately show ?thesis using that(1) by (simp add: nrows_def)
  qed
  show ?thesis
    using eq wf el by (intro exI [of _ ?ma]) (simp add: nrows_def)
qed

theorem moving_average_mean_witness:
  "wf2 \<lparr>ncols = 4, rows = [[1,2,3,5],[2,4,4,10::real]]\<rparr> \<and>
   (\<exists>ma. moving_average \<lparr>dtype = Float64,
                           array = \<lparr>ncols = 4, rows = [[1,2,3,5],[2,4,4,10]]\<rparr>\<rparr> 3 = Inr ma \<and>
         nrows ma = 2 \<and> ncols ma = 2 \<and> rows ma ! 0 ! 0 = 2 \<and> rows ma ! 1 ! 1 = 6)"
proof -
  let ?P = "\<lparr>ncols = 4, rows = [[1,2,3,5],[2,4,4,10::real]]\<rparr>"
  have h1: "wf2 ?P" by (simp add: wf2_def)
  have h2: "(1::int) \<le> 3" by simp
  have h3: "3 \<le> int (ncols ?P)" by simp
  from moving_average_mean [OF h1 h2 h3] obtain ma where
    ma: "moving_average \<lparr>dtype = Float64, array = ?P\<rparr> 3 = Inr ma" "nrows ma = nrows ?P"
      "ncols ma = ncols ?P - nat 3 + 1"
      and el: "\<And>b i. b < nrows ?P \<Longrightarrow> i < ncols ?P - nat 3 + 1 \<Longrightarrow>
              rows ma ! b ! i = (\<Sum>j<nat 3. rows ?P ! b ! (i + j)) / real_of_int 3"
    by blast
  have "rows ma ! 0 ! 0 = 2" using el [of 0 0]
    by (simp add: nrows_def lessThan_nat_numeral lessThan_Suc)
  moreover have "rows ma ! 1 ! 1 = 6" using el [of 1 1]
    by (simp add: nrows_def lessThan_nat_numeral lessThan_Suc)
  ultimately show ?thesis using h1 ma by (auto simp: nrows_def)
qed

text \<open>
  The claim as the specification states it, for every prices tensor, fails on prices of
  another dtype: for the float32 prices 1, 2, 3 (float32 is the dtype of a tensor built
  from Python floats) and the window 2 the convolution with the float64 kernel raises.
\<close>

theorem moving_average_float32_counterexample:
  "moving_average \<lparr>dtype = Float32, array = \<lparr>ncols = 3, rows = [[1, 2, 3]]\<rparr>\<rparr> 2
     = Inl RuntimeError"
  by (simp add: moving_average_def conv1d_def Let_def nrows_def)

text \<open>So it is for every batch that is not empty, of float32 or int64 prices.\<close>

lemma moving_average_other_dtype:
  assumes "nrows (array prices) \<noteq> 0" "dtype prices \<noteq> Float64"
  shows "moving_average prices w = Inl RuntimeError"
  using assms by (simp add: moving_average_def conv1d_def Let_def)

subsection \<open>Tensors by their entries\<close>

lemma tabulate2_simps [simp]:
  "ncols (tabulate2 n c F) = c" "nrows (tabulate2 n c F) = n" "wf2 (tabulate2 n c F)"
  by (simp_all add: tabulate2_def nrows_def wf2_def list_all_iff)

lemma tabulate2_nth [simp]:
  "b < n \<Longrightarrow> t < c \<Longrightarrow> rows (tabulate2 n c F) ! b ! t = F b t"
  by (simp add: tabulate2_def)

lemma tabulate2_cong:
  "(\<And>b t. b < n \<Longrightarrow> t < c \<Longrightarrow> F b t = G b t) \<Longrightarrow> tabulate2 n c F = tabulate2 n c G"
  by (simp add: tabulate2_def)

lemma wf2_tabulate:
  assumes "wf2 A"
  shows "A = tabulate2 (nrows A) (ncols A) (\<lambda>b t. rows A ! b ! t)"
proof -
  have "rows A = map (\<lambda>b. map (\<lambda>t. rows A ! b ! t) [0 ..< ncols A]) [0 ..< length (rows A)]"
  proof (rule nth_equalityI)
    show "length (rows A) = length (map (\<lambda>b. map (\<lambda>t. rows A ! b ! t) [0 ..< ncols A]) [0 ..< length (rows A)])"
      by simp
  next
    fix b assume b: "b < length (rows A)"
    then have "length (rows A ! b) = ncols A"
      using assms by (simp add: wf2_nth nrows_def)
    then have "rows A ! b = map (\<lambda>t. rows A ! b ! t) [0 ..< ncols A]"
      by (metis map_nth)
    then show "rows A ! b = map (\<lambda>b. map (\<lambda>t. rows A ! b ! t) [0 ..< ncols A]) [0 ..< length (rows A)] ! b"
      using b by simp
  qed
  then show ?thesis
    by (simp add: tabulate2_def nrows_def)
qed

lemma map2_upt:
  "map2 f (map g [0 ..< n]) (map h [0 ..< n]) = map (\<lambda>i. f (g i) (h i)) [0 ..< n]"
  by (simp add: zip_map_map zip_same_conv_map)

lemma ewise2_tabulate:
  "ewise2 f (tabulate2 n c F) (tabulate2 n c G) = Inr (tabulate2 n c (\<lambda>b t. f (F b t) (G b t)))"
  by (simp add: ewise2_def) (simp add: tabulate2_def map2_upt)

lemma map2d_tabulate: "map2d f (tabulate2 n c F) = tabulate2 n c (\<lambda>b t. f (F b t))"
  by (simp add: map2d_def tabulate2_def)

lemma drop_map_upt: "drop s (map f [0 ..< c]) = map (\<lambda>t. f (s + t)) [0 ..< c - s]"
  by (rule nth_equalityI) (simp_all add: add.commute)

lemma slice_from_tabulate:
  assumes "1 \<le> k" "k \<le> c"
  shows "slice_from (- int k) (tabulate2 n c F) = tabulate2 n k (\<lambda>b t. F b (c - k + t))"
proof -
  have "clamp_index c (- int k) = c - k"
    using assms by (simp add: clamp_index_def)
  then show ?thesis
    using assms by (simp add: slice_from_def Let_def) (simp add: tabulate2_def drop_map_upt)
qed

lemma slice_from_one_tabulate:
  "slice_from 1 (tabulate2 n c F) = tabulate2 n (c - 1) (\<lambda>b t. F b (t + 1))"
proof -
  have "clamp_index c 1 = min c 1" by (simp add: clamp_index_def)
  then show ?thesis
    by (cases c) (simp_all add: slice_from_def Let_def tabulate2_def drop_map_upt del: upt_Suc)
qed

lemma slice_to_minus_one_tabulate:
  "slice_to (- 1) (tabulate2 n c F) = tabulate2 n (c - 1) F"
proof -
  have "clamp_index c (- 1) = c - 1" by (simp add: clamp_index_def nat_diff_distrib' max_def)
  then show ?thesis
    by (simp add: slice_to_def Let_def) (simp add: tabulate2_def take_map)
qed

subsection \<open>Percent change\<close>

lemma percent_change_tabulate:
  "percent_change (tabulate2 n c F)
     = Inr (tabulate2 n (c - 1) (\<lambda>b t. fsub (fdiv (Fin (F b (t + 1))) (F b t)) 1))"
  by (simp add: percent_change_def slice_from_one_tabulate slice_to_minus_one_tabulate
      ewise2_tabulate map2d_tabulate)

text \<open>
  C4: for prices of shape (batch x T) with \<open>T \<ge> 2\<close>, \<open>percent_change\<close> returns a tensor
  of shape (batch x (T - 1)) whose entry \<open>t\<close> of each row is the quotient of the prices
  \<open>t + 1\<close> and \<open>t\<close> of that row, minus 1 (the quotient being the tensor division, which
  gives no finite number where the price \<open>t\<close> is zero).
\<close>

theorem percent_change_ratio:
  assumes "wf2 prices" "2 \<le> ncols prices"
  shows "\<exists>pc. percent_change prices = Inr pc \<and> wf2 pc \<and> nrows pc = nrows prices \<and>
           ncols pc = ncols prices - 1 \<and>
           (\<forall>b < nrows prices. \<forall>t < ncols prices - 1.
              rows pc ! b ! t = fsub (fdiv (Fin (rows prices ! b ! (t + 1))) (rows prices ! b ! t)) 1)"
proof -
  let ?pc = "tabulate2 (nrows prices) (ncols prices - 1)
               (\<lambda>b t. fsub (fdiv (Fin (rows prices ! b ! (t + 1))) (rows prices ! b ! t)) 1)"
  have "percent_change (tabulate2 (nrows prices) (ncols prices) (\<lambda>b t. rows prices ! b ! t)) = Inr ?pc"
    by (rule percent_change_tabulate)
  then have "percent_change prices = Inr ?pc"
    using wf2_tabulate [OF assms(1)] by simp
  then show ?thesis
    by (intro exI [of _ ?pc]) simp
qed

theorem percent_change_ratio_witness:
  "wf2 \<lparr>ncols = 3, rows = [[1, 2, 3], [4, 0, 5 :: real]]\<rparr> \<and>
   (\<exists>pc. percent_change \<lparr>ncols = 3, rows = [[1, 2, 3], [4, 0, 5]]\<rparr> = Inr pc \<and>
         nrows pc = 2 \<and> ncols pc = 2 \<and> rows pc ! 0 ! 1 = Fin (1 / 2) \<and>
         rows pc ! 1 ! 0 = Fin (- 1) \<and> rows pc ! 1 ! 1 = NotFinite)"
proof -
  let ?P = "\<lparr>ncols = 3, rows = [[1, 2, 3], [4, 0, 5 :: real]]\<rparr>"
  have h1: "wf2 ?P" by (simp add: wf2_def)
  have h2: "2 \<le> ncols ?P" by simp
  from percent_change_ratio [OF h1 h2] obtain pc where
    pc: "percent_change ?P = Inr pc" "nrows pc = nrows ?P" "ncols pc = ncols ?P - 1"
      and el: "\<And>b t. b < nrows ?P \<Longrightarrow> t < ncols ?P - 1 \<Longrightarrow>
              rows pc ! b ! t = fsub (fdiv (Fin (rows ?P ! b ! (t + 1))) (rows ?P ! b ! t)) 1"
    by blast
  have "rows pc ! 0 ! 1 = Fin (1 / 2)" using el [of 0 1] by (simp add: nrows_def)
  moreover have "rows pc ! 1 ! 0 = Fin (- 1)" using el [of 1 0] by (simp add: nrows_def)
  moreover have "rows pc ! 1 ! 1 = NotFinite" using el [of 1 1] by (simp add: nrows_def)
  ultimately show ?thesis using h1 pc by (auto simp: nrows_def)
qed

subsection \<open>The evaluator\<close>

lemma argmax_from_props:
  assumes "best < i" "i = length pre" "best < length pre" "pre ! best = v"
    and "\<forall>j < length pre. pre ! j \<le> v" and "\<forall>j < best. pre ! j < v"
  shows "argmax_from best v i xs < length (pre @ xs) \<and>
         (\<forall>j < length (pre @ xs). (pre @ xs) ! j \<le> (pre @ xs) ! argmax_from best v i xs) \<and>
         (\<forall>j < argmax_from best v i xs. (pre @ xs) ! j < (pre @ xs) ! argmax_from best v i xs)"
  using assms
proof (induction xs arbitrary: best v i pre)
  case Nil
  then show ?case by simp
next
  case (Cons x xs)
  show ?case
  proof (cases "x > v")
    case True
    have "argmax_from i x (Suc i) xs < length ((pre @ [x]) @ xs) \<and>
         (\<forall>j < length ((pre @ [x]) @ xs). ((pre @ [x]) @ xs) ! j \<le> ((pre @ [x]) @ xs) ! argmax_from i x (Suc i) xs) \<and>
         (\<forall>j < argmax_from i x (Suc i) xs. ((pre @ [x]) @ xs) ! j < ((pre @ [x]) @ xs) ! argmax_from i x (Suc i) xs)"
    proof (rule Cons.IH)
      show "\<forall>j<length (pre @ [x]). (pre @ [x]) ! j \<le> x"
        using Cons.prems True by (auto simp: nth_append less_Suc_eq intro: less_imp_le order_trans)
      show "\<forall>j<i. (pre @ [x]) ! j < x"
        using Cons.prems True by (auto simp: nth_append)
    qed (use Cons.prems in \<open>simp_all add: nth_append\<close>)
    then show ?thesis using True by simp
  next
    case False
    have "argmax_from best v (Suc i) xs < length ((pre @ [x]) @ xs) \<and>
         (\<forall>j < length ((pre @ [x]) @ xs). ((pre @ [x]) @ xs) ! j \<le> ((pre @ [x]) @ xs) ! argmax_from best v (Suc i) xs) \<and>
         (\<forall>j < argmax_from best v (Suc i) xs. ((pre @ [x]) @ xs) ! j < ((pre @ [x]) @ xs) ! argmax_from best v (Suc i) xs)"
    proof (rule Cons.IH)
      show "\<forall>j<length (pre @ [x]). (pre @ [x]) ! j \<le> v"
        using Cons.prems False by (auto simp: nth_append less_Suc_eq)
      show "\<forall>j<best. (pre @ [x]) ! j < v"
        using Cons.prems by (auto simp: nth_append)
    qed (use Cons.prems in \<open>simp_all add: nth_append\<close>)
    then show ?thesis using False by simp
  qed
qed

text \<open>
  X1: the predicted category of a row of at least one entry is the index of its first
  maximal entry: no entry is greater, and every entry before it is smaller.
\<close>

theorem argmax_row_first_max:
  assumes "xs \<noteq> []"
  shows "argmax_row xs < length xs \<and> (\<forall>j < length xs. xs ! j \<le> xs ! argmax_row xs) \<and>
         (\<forall>j < argmax_row xs. xs ! j < xs ! argmax_row xs)"
proof -
  obtain x rest where xs: "xs = x # rest" using assms by (cases xs) auto
  have "argmax_from 0 x 1 rest < length ([x] @ rest) \<and>
         (\<forall>j < length ([x] @ rest). ([x] @ rest) ! j \<le> ([x] @ rest) ! argmax_from 0 x 1 rest) \<and>
         (\<forall>j < argmax_from 0 x 1 rest. ([x] @ rest) ! j < ([x] @ rest) ! argmax_from 0 x 1 rest)"
    by (rule argmax_from_props) simp_all
  then show ?thesis by (simp add: xs argmax_row_def)
qed

theorem argmax_row_first_max_witness: "argmax_row [0.2, 0.5, 0.5] = 1"
proof -
  let ?xs = "[0.2, 0.5, 0.5 :: real]"
  have h: "?xs \<noteq> []" by simp
  note all = argmax_row_first_max [OF h]
  have a: "argmax_row ?xs < 3" using all by simp
  have "(1::nat) < length ?xs" by simp
  with all have b: "?xs ! 1 \<le> ?xs ! argmax_row ?xs" by blast
  from all have c: "\<forall>j < argmax_row ?xs. ?xs ! j < ?xs ! argmax_row ?xs" by blast
  from a consider "argmax_row ?xs = 0" | "argmax_row ?xs = 1" | "argmax_row ?xs = 2"
    by linarith
  then show ?thesis
  proof cases
    case 1 then show ?thesis using b by simp
  next
    case 2 then show ?thesis by simp
  next
    case 3
    then have "(1::nat) < argmax_row ?xs" by simp
    with c have "?xs ! 1 < ?xs ! argmax_row ?xs" by blast
    then show ?thesis using 3 by simp
  qed
qed

lemma ewise1_same_length:
  "length xs = length ys \<Longrightarrow> ewise1 f xs ys = Inr (map2 f xs ys)"
  by (simp add: ewise1_def)

lemma count_true_map: "count_true (map P xs) = length (filter P xs)"
  by (induction xs) (simp_all add: count_true_def)

lemma count_true_map2: "count_true (map2 f xs ys) = length (filter (\<lambda>(x, y). f x y) (zip xs ys))"
  by (simp add: count_true_map case_prod_unfold)

lemma map2_map_map: "map2 f (map g xs) (map h ys) = map2 (\<lambda>x y. f (g x) (h y)) xs ys"
  by (simp add: zip_map_map case_prod_unfold)

lemma ewise1_both_positive:
  "length ps = length ls \<Longrightarrow>
   ewise1 (\<and>) (map (\<lambda>c. c = (2::nat)) ps) (map (\<lambda>c. c = (2::nat)) ls)
     = Inr (map2 (\<lambda>p l. p = 2 \<and> l = 2) ps ls)"
  by (simp add: ewise1_same_length map2_map_map)

lemma stats_eq:
  assumes "0 < ncols dst" "nrows dst = length truth"
  shows "stats dst truth =
     Inr [''accuracy'' \<mapsto> accuracy_spec (map argmax_row (rows dst)) (to_categorical truth),
          ''precision'' \<mapsto> precision_spec (map argmax_row (rows dst)) (to_categorical truth),
          ''recall'' \<mapsto> recall_spec (map argmax_row (rows dst)) (to_categorical truth)]"
proof -
  let ?pred = "map argmax_row (rows dst)"
  let ?lab = "to_categorical truth"
  have len: "length ?pred = length ?lab"
    using assms(2) by (simp add: to_categorical_map nrows_def)
  have a: "argmax dst = Inr ?pred"
    using assms(1) by (simp add: argmax_def)
  have e1: "ewise1 (=) ?pred ?lab = Inr (map2 (=) ?pred ?lab)"
    using len by (rule ewise1_same_length)
  have e2: "ewise1 (\<and>) (map (\<lambda>c. c = 2) ?pred) (map (\<lambda>c. c = 2) ?lab)
      = Inr (map2 (\<lambda>p l. p = 2 \<and> l = 2) ?pred ?lab)"
    using len by (rule ewise1_both_positive)
  show ?thesis
    unfolding stats_def a bind_Inr Let_def e1 e2
    by (simp only: accuracy_spec_def precision_spec_def recall_spec_def matches_def
        true_positives_def positives_def count_true_map count_true_map2)
qed

lemma positives_zero: "2 \<notin> set cs \<Longrightarrow> positives cs = 0"
  by (induction cs) (auto simp: positives_def)

text \<open>
  C9: for predictions of shape (batch x k), \<open>k > 0\<close>, and a ground truth of shape (batch),
  \<open>stats\<close> returns as accuracy the number of batch elements whose predicted category
  (the argmax of the row) equals the category that \<open>to_categorical\<close> derives from the
  truth, divided by the size of the batch; as precision the number of elements predicted
  and labelled 2, divided by the number predicted 2; and as recall the same number
  divided by the number labelled 2. Category 2 is the only positive class.
\<close>

theorem stats_fractions:
  assumes "0 < ncols dst" "nrows dst = length truth"
  shows "\<exists>r. stats dst truth = Inr r \<and>
     r ''accuracy'' = Some (accuracy_spec (map argmax_row (rows dst)) (to_categorical truth)) \<and>
     r ''precision'' = Some (precision_spec (map argmax_row (rows dst)) (to_categorical truth)) \<and>
     r ''recall'' = Some (recall_spec (map argmax_row (rows dst)) (to_categorical truth))"
  using stats_eq [OF assms] by simp

theorem stats_fractions_witness:
  "\<exists>r. stats \<lparr>ncols = 3, rows = [[0.2, 0.5, 0.3], [0.1, 0.1, 0.8], [0.7, 0.2, 0.1]]\<rparr>
            [0.5, 0.4, 0] = Inr r \<and>
       r ''accuracy'' = Some (Fin (1 / 3)) \<and> r ''precision'' = Some (Fin 1) \<and>
       r ''recall'' = Some (Fin (1 / 2))"
proof -
  let ?D = "\<lparr>ncols = 3, rows = [[0.2, 0.5, 0.3], [0.1, 0.1, 0.8], [0.7, 0.2, 0.1 :: real]]\<rparr>"
  let ?t = "[0.5, 0.4, 0 :: real]"
  have h1: "0 < ncols ?D" by simp
  have h2: "nrows ?D = length ?t" by (simp add: nrows_def)
  have pred: "map argmax_row (rows ?D) = [1, 2, 0]" by (simp add: argmax_row_def)
  have lab: "to_categorical ?t = [2, 2, 1]" by (simp add: to_categorical_map)
  have "accuracy_spec [1, 2, 0] [2, 2, 1] = Fin (1 / 3)"
    by (simp add: accuracy_spec_def matches_def)
  moreover have "precision_spec [1, 2, 0] [2, 2, 1] = Fin 1"
    by (simp add: precision_spec_def true_positives_def positives_def)
  moreover have "recall_spec [1, 2, 0] [2, 2, 1] = Fin (1 / 2)"
    by (simp add: recall_spec_def true_positives_def positives_def)
  ultimately show ?thesis
    using stats_fractions [OF h1 h2] unfolding pred lab by simp
qed

text \<open>
  C6: when no batch element has the predicted category 2, \<open>stats\<close> raises nothing and
  its precision is a quotient by zero: no finite number. No guard stands before the
  division.
\<close>

theorem stats_precision_undefined:
  assumes "0 < ncols dst" "nrows dst = length truth"
    and "\<forall>row \<in> set (rows dst). argmax_row row \<noteq> 2"
  shows "\<exists>r. stats dst truth = Inr r \<and> r ''precision'' = Some NotFinite"
proof -
  have "2 \<notin> set (map argmax_row (rows dst))"
    using assms(3) by auto
  then have "positives (map argmax_row (rows dst)) = 0"
    by (rule positives_zero)
  then show ?thesis
    using stats_eq [OF assms(1,2)] by (simp add: precision_spec_def)
qed

theorem stats_precision_undefined_witness:
  "\<exists>r. stats \<lparr>ncols = 3, rows = [[0.2, 0.5, 0.3], [0.7, 0.2, 0.1]]\<rparr> [0.5, 0] = Inr r \<and>
       r ''precision'' = Some NotFinite"
proof -
  let ?D = "\<lparr>ncols = 3, rows = [[0.2, 0.5, 0.3], [0.7, 0.2, 0.1 :: real]]\<rparr>"
  let ?t = "[0.5, 0 :: real]"
  have h1: "0 < ncols ?D" by simp
  have h2: "nrows ?D = length ?t" by (simp add: nrows_def)
  have h3: "\<forall>row \<in> set (rows ?D). argmax_row row \<noteq> 2" by (simp add: argmax_row_def)
  show ?thesis using stats_precision_undefined [OF h1 h2 h3] .
qed

text \<open>
  C10: when no batch element has the label 2, \<open>stats\<close> raises nothing and its recall is
  a quotient by zero: no finite number.
\<close>

theorem stats_recall_undefined:
  assumes "0 < ncols dst" "nrows dst = length truth"
    and "\<forall>c \<in> set (to_categorical truth). c \<noteq> 2"
  shows "\<exists>r. stats dst truth = Inr r \<and> r ''recall'' = Some NotFinite"
proof -
  have "2 \<notin> set (to_categorical truth)"
    using assms(3) by auto
  then have "positives (to_categorical truth) = 0"
    by (rule positives_zero)
  then show ?thesis
    using stats_eq [OF assms(1,2)] by (simp add: recall_spec_def)
qed

theorem stats_recall_undefined_witness:
  "\<exists>r. stats \<lparr>ncols = 3, rows = [[0.2, 0.5, 0.3], [0.1, 0.2, 0.7]]\<rparr> [0.3, - 0.5] = Inr r \<and>
       r ''recall'' = Some NotFinite"
proof -
  let ?D = "\<lparr>ncols = 3, rows = [[0.2, 0.5, 0.3], [0.1, 0.2, 0.7 :: real]]\<rparr>"
  let ?t = "[0.3, - 0.5 :: real]"
  have h1: "0 < ncols ?D" by simp
  have h2: "nrows ?D = length ?t" by (simp add: nrows_def)
  have h3: "\<forall>c \<in> set (to_categorical ?t). c \<noteq> 2" by (simp add: to_categorical_map)
  show ?thesis using stats_recall_undefined [OF h1 h2 h3] .
qed

subsection \<open>The indicators\<close>

lemma conv_row_tabulate:
  assumes "1 \<le> k" "k \<le> c"
  shows "conv_row (replicate k (1 / real k)) (map f [0 ..< c])
           = map (\<lambda>i. (\<Sum>j<k. f (i + j)) / real k) [0 ..< c - k + 1]"
proof (rule nth_equalityI)
  show "length (conv_row (replicate k (1 / real k)) (map f [0 ..< c]))
      = length (map (\<lambda>i. (\<Sum>j<k. f (i + j)) / real k) [0 ..< c - k + 1])"
    by simp
next
  fix i assume "i < length (conv_row (replicate k (1 / real k)) (map f [0 ..< c]))"
  then have i: "i < c - k + 1" by simp
  have "conv_row (replicate k (1 / real k)) (map f [0 ..< c]) ! i
      = (\<Sum>j<k. map f [0 ..< c] ! (i + j)) / real k"
    using assms i by (intro conv_row_mean) simp_all
  also have "(\<Sum>j<k. map f [0 ..< c] ! (i + j)) = (\<Sum>j<k. f (i + j))"
    using assms i by (intro sum.cong) auto
  finally show "conv_row (replicate k (1 / real k)) (map f [0 ..< c]) ! i
      = map (\<lambda>i. (\<Sum>j<k. f (i + j)) / real k) [0 ..< c - k + 1] ! i"
    using i by (simp del: upt_Suc)
qed

lemma moving_average_tabulate:
  assumes "1 \<le> k" "k \<le> c"
  shows "moving_average \<lparr>dtype = Float64, array = tabulate2 n c F\<rparr> (int k)
           = Inr (tabulate2 n (c - k + 1) (\<lambda>b i. (\<Sum>j<k. F b (i + j)) / real k))"
proof -
  have "moving_average \<lparr>dtype = Float64, array = tabulate2 n c F\<rparr> (int k)
      = Inr \<lparr>ncols = c - k + 1,
             rows = map (conv_row (replicate k (1 / real k))) (rows (tabulate2 n c F))\<rparr>"
    using assms moving_average_conv [of "int k" "tabulate2 n c F"] by simp
  also have "map (conv_row (replicate k (1 / real k))) (rows (tabulate2 n c F))
      = map (\<lambda>b. map (\<lambda>i. (\<Sum>j<k. F b (i + j)) / real k) [0 ..< c - k + 1]) [0 ..< n]"
    using assms by (simp add: tabulate2_def conv_row_tabulate del: upt_Suc)
  finally show ?thesis by (simp add: tabulate2_def)
qed

lemma trailing_moving_average:
  assumes "1 \<le> k" "k \<le> W" "W \<le> c"
  shows "slice_from (- int (c - W + 1))
           (tabulate2 n (c - k + 1) (\<lambda>b i. (\<Sum>j<k. F b (i + j)) / real k))
       = tabulate2 n (c - W + 1) (\<lambda>b t. (\<Sum>j<k. F b (W - k + t + j)) / real k)"
proof -
  have "c - k + 1 - (c - W + 1) = W - k" using assms by simp
  then show ?thesis
    using assms by (subst slice_from_tabulate) simp_all
qed

lemma unfold_var_tabulate:
  assumes "1 \<le> W" "W \<le> c"
  shows "\<exists>x. unfold \<lparr>dtype = Float64, array = tabulate2 n c F\<rparr> (int W) = Inr x \<and>
           var_dim1 x = Inr (tabulate2 n (c - W + 1)
                          (\<lambda>b l. var_unbiased (map (\<lambda>k. F b (l + k)) [0 ..< W])))"
proof -
  let ?x = "\<lparr>dtype = Float64,
             array = \<lparr>dim1 = W, dim2 = c - W + 1,
               blocks = map (\<lambda>row. map (\<lambda>k. map (\<lambda>l. row ! (l + k)) [0 ..< c - W + 1]) [0 ..< W])
                            (rows (tabulate2 n c F))\<rparr>\<rparr>"
  have u: "unfold \<lparr>dtype = Float64, array = tabulate2 n c F\<rparr> (int W) = Inr ?x"
    using assms by (simp add: unfold_def Let_def)
  have key: "map (\<lambda>k. map (F b) [0 ..< c] ! (l + k)) [0 ..< W] = map (\<lambda>k. F b (l + k)) [0 ..< W]"
    if "l < c - W + 1" for b l
    using that assms by (intro map_cong [OF refl]) simp
  have "var_dim1 ?x = Inr (tabulate2 n (c - W + 1)
                          (\<lambda>b l. var_unbiased (map (\<lambda>k. F b (l + k)) [0 ..< W])))"
    by (simp add: var_dim1_def tabulate2_def o_def key del: upt_Suc cong: map_cong)
  with u show ?thesis by blast
qed

lemma percent_change_trailing:
  assumes "2 \<le> W" "W \<le> c"
  shows "slice_from (- int (c - W + 1))
           (tabulate2 n (c - 1) (\<lambda>b t. fsub (fdiv (Fin (F b (t + 1))) (F b t)) 1))
       = tabulate2 n (c - W + 1)
           (\<lambda>b t. fsub (fdiv (Fin (F b (W - 1 + t))) (F b (W - 2 + t))) 1)"
proof -
  have "c - 1 - (c - W + 1) = W - 2" using assms by simp
  moreover have "W - 2 + t + 1 = W - 1 + t" for t using assms by simp
  ultimately show ?thesis
    using assms by (subst slice_from_tabulate) simp_all
qed


lemma int_quot_nat: "0 < k \<Longrightarrow> int_quot (int W) (int k) = int (W div k)"
  by (simp add: int_quot_def zdiv_int)

lemma create_indicators_tabulate:
  fixes P :: "nat \<Rightarrow> nat \<Rightarrow> real" and W c n :: nat
  assumes "6 \<le> W" "W \<le> c"
  defines "L \<equiv> c - W + 1"
  defines "ma \<equiv> \<lambda>k b t. (\<Sum>j<k. P b (W - k + t + j)) / real k"
  shows "create_indicators \<lparr>dtype = Float64, array = tabulate2 n c P\<rparr> (int W) series =
     bind (latest series (tabulate2 n L
             (\<lambda>b t. fdiv (Fin (ma (W div 6) b t - ma (W div 2) b t)) (ma (W div 2) b t)))) (\<lambda>macd1.
     bind (latest series (tabulate2 n L
             (\<lambda>b t. fdiv (Fin (ma (W div 3) b t - ma W b t)) (ma W b t)))) (\<lambda>macd2.
     bind (latest series (tabulate2 n L
             (\<lambda>b t. fsub (fdiv (Fin (P b (W - 1 + t))) (P b (W - 2 + t))) 1))) (\<lambda>pct.
     bind (latest series (tabulate2 n L
             (\<lambda>b t. var_unbiased (map (\<lambda>k. P b (t + k)) [0 ..< W])))) (\<lambda>var.
     bind (tdiv var (tabulate2 n L (ma W))) (\<lambda>q.
     Inr [''macd1'' \<mapsto> tmul macd1 100, ''macd2'' \<mapsto> tmul macd2 100,
          ''pct'' \<mapsto> tmul pct 100, ''var'' \<mapsto> tmul q 100])))))"
proof -
  have ar: "array \<lparr>dtype = Float64, array = tabulate2 n c P\<rparr> = tabulate2 n c P"
    by simp
  have il: "- (int (ncols (tabulate2 n c P)) - int W + 1) = - int L"
    using assms(2) by (simp add: L_def)
  have q2: "int_quot (int W) 2 = int (W div 2)" using int_quot_nat [of 2 W] by simp
  have q6: "int_quot (int W) 6 = int (W div 6)" using int_quot_nat [of 6 W] by simp
  have q3: "int_quot (int W) 3 = int (W div 3)" using int_quot_nat [of 3 W] by simp
  have mv: "moving_average \<lparr>dtype = Float64, array = tabulate2 n c P\<rparr> (int k)
        = Inr (tabulate2 n (c - k + 1) (\<lambda>b i. (\<Sum>j<k. P b (i + j)) / real k))"
    if "1 \<le> k" "k \<le> W" for k
    using that assms(2) by (intro moving_average_tabulate) simp_all
  have sl: "slice_from (- int L)
           (tabulate2 n (c - k + 1) (\<lambda>b i. (\<Sum>j<k. P b (i + j)) / real k))
       = tabulate2 n L (ma k)"
    if "1 \<le> k" "k \<le> W" for k
    unfolding L_def ma_def using that assms(2) by (intro trailing_moving_average)
  have k2: "1 \<le> W div 2" "W div 2 \<le> W" and k6: "1 \<le> W div 6" "W div 6 \<le> W"
    and k3: "1 \<le> W div 3" "W div 3 \<le> W" and k1: "1 \<le> W" "W \<le> W"
    using assms(1) by simp_all
  have pc: "slice_from (- int L)
           (tabulate2 n (c - 1) (\<lambda>b t. fsub (fdiv (Fin (P b (t + 1))) (P b t)) 1))
       = tabulate2 n L (\<lambda>b t. fsub (fdiv (Fin (P b (W - 1 + t))) (P b (W - 2 + t))) 1)"
    unfolding L_def using assms(1,2) by (intro percent_change_trailing) simp_all
  obtain x where x: "unfold \<lparr>dtype = Float64, array = tabulate2 n c P\<rparr> (int W) = Inr x"
    "var_dim1 x = Inr (tabulate2 n L (\<lambda>b l. var_unbiased (map (\<lambda>k. P b (l + k)) [0 ..< W])))"
    using unfold_var_tabulate [of W c n P] assms(1,2) unfolding L_def by auto
  show ?thesis
    unfolding create_indicators_def Let_def ar il q2 q6 q3
    by (simp only: mv [OF k2] mv [OF k6] mv [OF k3] mv [OF k1] sl [OF k2] sl [OF k6] sl [OF k3]
        sl [OF k1] percent_change_tabulate pc ewise2_tabulate bind_Inr x)
qed

lemma take_drop_nth:
  "i + k \<le> length row \<Longrightarrow> take k (drop i row) = map (\<lambda>j. row ! (i + j)) [0 ..< k]"
  by (rule nth_equalityI) simp_all

lemma window_mean_sum:
  assumes "1 \<le> k" "k \<le> W" "W + t \<le> length row"
  shows "(\<Sum>j<k. row ! (W - k + t + j)) / real k = window_mean row (W - 1 + t) k"
proof -
  have "W - 1 + t + 1 - k = W - k + t" using assms by simp
  moreover have "W - k + t + k \<le> length row" using assms by simp
  ultimately show ?thesis
    by (simp add: window_mean_def window_def sum_list_window)
qed

lemma window_nth:
  assumes "1 \<le> W" "W + t \<le> length row"
  shows "map (\<lambda>k. row ! (t + k)) [0 ..< W] = window row (W - 1 + t) W"
proof -
  have "W - 1 + t + 1 - W = t" using assms by simp
  then show ?thesis using assms by (simp add: window_def take_drop_nth)
qed

lemma create_indicators_rows:
  fixes prices :: "real tensor2"
  assumes "wf2 prices" "6 \<le> w" "w \<le> int (ncols prices)"
  defines "W \<equiv> nat w"
  defines "L \<equiv> ncols prices - W + 1"
  defines "n \<equiv> nrows prices"
  defines "row \<equiv> \<lambda>b. rows prices ! b"
  shows "create_indicators \<lparr>dtype = Float64, array = prices\<rparr> w series =
     bind (latest series (tabulate2 n L
             (\<lambda>b t. fdiv (Fin (window_mean (row b) (W - 1 + t) (W div 6)
                              - window_mean (row b) (W - 1 + t) (W div 2)))
                          (window_mean (row b) (W - 1 + t) (W div 2))))) (\<lambda>macd1.
     bind (latest series (tabulate2 n L
             (\<lambda>b t. fdiv (Fin (window_mean (row b) (W - 1 + t) (W div 3)
                              - window_mean (row b) (W - 1 + t) W))
                          (window_mean (row b) (W - 1 + t) W)))) (\<lambda>macd2.
     bind (latest series (tabulate2 n L
             (\<lambda>b t. fsub (fdiv (Fin (row b ! (W - 1 + t))) (row b ! (W - 1 + t - 1))) 1))) (\<lambda>pct.
     bind (latest series (tabulate2 n L
             (\<lambda>b t. var_unbiased (window (row b) (W - 1 + t) W)))) (\<lambda>var.
     bind (tdiv var (tabulate2 n L (\<lambda>b t. window_mean (row b) (W - 1 + t) W))) (\<lambda>q.
     Inr [''macd1'' \<mapsto> tmul macd1 100, ''macd2'' \<mapsto> tmul macd2 100,
          ''pct'' \<mapsto> tmul pct 100, ''var'' \<mapsto> tmul q 100])))))"
proof -
  let ?c = "ncols prices"
  let ?P = "\<lambda>b t. rows prices ! b ! t"
  let ?ma = "\<lambda>k b t. (\<Sum>j<k. ?P b (W - k + t + j)) / real k"
  have W: "6 \<le> W" "W \<le> ?c" "w = int W" using assms(2,3) by (simp_all add: W_def)
  have len: "length (row b) = ?c" if "b < n" for b
    using wf2_nth [OF assms(1)] that by (simp add: n_def row_def)
  have m: "?ma k b t = window_mean (row b) (W - 1 + t) k" if "b < n" "t < L" "1 \<le> k" "k \<le> W" for k b t
    unfolding row_def [symmetric]
    using that W len [OF that(1)] by (intro window_mean_sum) (simp_all add: L_def)
  have v: "map (\<lambda>k. ?P b (t + k)) [0 ..< W] = window (row b) (W - 1 + t) W" if "b < n" "t < L" for b t
    unfolding row_def [symmetric]
    using that W len [OF that(1)] by (intro window_nth) (simp_all add: L_def)
  have p: "W - 2 + t = W - 1 + t - 1" for t using W(1) by simp
  have k2: "1 \<le> W div 2" "W div 2 \<le> W" and k6: "1 \<le> W div 6" "W div 6 \<le> W"
    and k3: "1 \<le> W div 3" "W div 3 \<le> W" and k1: "1 \<le> W" "W \<le> W"
    using W(1) by simp_all
  have t1: "tabulate2 n L (\<lambda>b t. fdiv (Fin (?ma (W div 6) b t - ?ma (W div 2) b t)) (?ma (W div 2) b t))
      = tabulate2 n L (\<lambda>b t. fdiv (Fin (window_mean (row b) (W - 1 + t) (W div 6)
                              - window_mean (row b) (W - 1 + t) (W div 2)))
                          (window_mean (row b) (W - 1 + t) (W div 2)))"
    by (intro tabulate2_cong) (simp only: m [OF _ _ k6] m [OF _ _ k2])
  have t2: "tabulate2 n L (\<lambda>b t. fdiv (Fin (?ma (W div 3) b t - ?ma W b t)) (?ma W b t))
      = tabulate2 n L (\<lambda>b t. fdiv (Fin (window_mean (row b) (W - 1 + t) (W div 3)
                              - window_mean (row b) (W - 1 + t) W))
                          (window_mean (row b) (W - 1 + t) W))"
    by (intro tabulate2_cong) (simp only: m [OF _ _ k3] m [OF _ _ k1])
  have t3: "tabulate2 n L (\<lambda>b t. fsub (fdiv (Fin (?P b (W - 1 + t))) (?P b (W - 2 + t))) 1)
      = tabulate2 n L (\<lambda>b t. fsub (fdiv (Fin (row b ! (W - 1 + t))) (row b ! (W - 1 + t - 1))) 1)"
    by (simp only: p row_def)
  have t4: "tabulate2 n L (\<lambda>b t. var_unbiased (map (\<lambda>k. ?P b (t + k)) [0 ..< W]))
      = tabulate2 n L (\<lambda>b t. var_unbiased (window (row b) (W - 1 + t) W))"
    by (intro tabulate2_cong) (simp only: v)
  have t5: "tabulate2 n L (?ma W) = tabulate2 n L (\<lambda>b t. window_mean (row b) (W - 1 + t) W)"
    by (intro tabulate2_cong) (simp only: m [OF _ _ k1])
  have "create_indicators \<lparr>dtype = Float64, array = prices\<rparr> w series
      = create_indicators \<lparr>dtype = Float64, array = tabulate2 n ?c ?P\<rparr> (int W) series"
    using wf2_tabulate [OF assms(1)] W(3) by (simp add: n_def)
  also have "\<dots> =
     bind (latest series (tabulate2 n L
             (\<lambda>b t. fdiv (Fin (?ma (W div 6) b t - ?ma (W div 2) b t)) (?ma (W div 2) b t)))) (\<lambda>macd1.
     bind (latest series (tabulate2 n L
             (\<lambda>b t. fdiv (Fin (?ma (W div 3) b t - ?ma W b t)) (?ma W b t)))) (\<lambda>macd2.
     bind (latest series (tabulate2 n L
             (\<lambda>b t. fsub (fdiv (Fin (?P b (W - 1 + t))) (?P b (W - 2 + t))) 1))) (\<lambda>pct.
     bind (latest series (tabulate2 n L
             (\<lambda>b t. var_unbiased (map (\<lambda>k. ?P b (t + k)) [0 ..< W])))) (\<lambda>var.
     bind (tdiv var (tabulate2 n L (?ma W))) (\<lambda>q.
     Inr [''macd1'' \<mapsto> tmul macd1 100, ''macd2'' \<mapsto> tmul macd2 100,
          ''pct'' \<mapsto> tmul pct 100, ''var'' \<mapsto> tmul q 100])))))"
    unfolding L_def using W(1,2) by (rule create_indicators_tabulate)
  finally show ?thesis
    by (simp only: t1 t2 t3 t4 t5)
qed

lemma bind_eq_Inr: "bind m f = Inr y \<longleftrightarrow> (\<exists>x. m = Inr x \<and> f x = Inr y)"
  by (cases m) simp_all

lemma latest_series [simp]: "latest True A = Inr (T2 A)"
  by (simp add: latest_def)

lemma tmul_T2_tabulate:
  "tmul (T2 (tabulate2 n c F)) k = T2 (tabulate2 n c (\<lambda>b t. fmul (F b t) k))"
  by (simp add: tmul_def map2d_tabulate)

lemma tdiv_T2_tabulate:
  "tdiv (T2 (tabulate2 n c F)) (tabulate2 n c G) = Inr (T2 (tabulate2 n c (\<lambda>b t. fdiv (F b t) (G b t))))"
  by (simp add: tdiv_def ewise2_tabulate)

lemma create_indicators_series:
  fixes prices :: "real tensor2"
  assumes "wf2 prices" "6 \<le> w" "w \<le> int (ncols prices)"
  defines "W \<equiv> nat w"
  defines "L \<equiv> ncols prices - W + 1"
  defines "n \<equiv> nrows prices"
  defines "row \<equiv> \<lambda>b. rows prices ! b"
  shows "create_indicators \<lparr>dtype = Float64, array = prices\<rparr> w True =
     Inr [''macd1'' \<mapsto> T2 (tabulate2 n L (\<lambda>b t. macd_at (row b) (W - 1 + t) (W div 6) (W div 2))),
          ''macd2'' \<mapsto> T2 (tabulate2 n L (\<lambda>b t. macd_at (row b) (W - 1 + t) (W div 3) W)),
          ''pct'' \<mapsto> T2 (tabulate2 n L (\<lambda>b t. pct_at (row b) (W - 1 + t))),
          ''var'' \<mapsto> T2 (tabulate2 n L (\<lambda>b t. var_at (row b) (W - 1 + t) W))]"
  unfolding create_indicators_rows [OF assms(1-3)] W_def [symmetric] L_def [symmetric]
    n_def [symmetric] row_def [symmetric]
  by (simp only: latest_series bind_Inr tmul_T2_tabulate tdiv_T2_tabulate macd_at_def pct_at_def
      var_at_def)

lemma fmul_fdiv_zero: "fmul (fdiv x 0) k = NotFinite"
  by (cases x) simp_all

lemma bind_InrE:
  assumes "bind m f = Inr y"
  obtains x where "m = Inr x" "f x = Inr y"
  using assms by (auto simp: bind_eq_Inr)

lemma tdiv_T2: "tdiv x d = Inr q \<Longrightarrow> \<exists>A. q = T2 A"
  by (auto simp: tdiv_def bind_eq_Inr split: tensor.splits)

lemma example_latest_returns:
  "\<exists>d. create_indicators
       \<lparr>dtype = Float64,
        array = \<lparr>ncols = 6, rows = [[1, 2, 3, 4, 5, 6]]\<rparr>\<rparr> 6 False = Inr d"
  by (simp add: create_indicators_def Let_def moving_average_def conv1d_def conv_row_def int_quot_def
      slice_from_def slice_to_def clamp_index_def ewise2_def nrows_def expand_def bdim_def latest_def
      select_last_def tmul_def tdiv_def percent_change_def map2d_def unfold_def var_dim1_def
      var_unbiased_def unsqueeze0_def upt_rec)

text \<open>
  X2: whenever \<open>create_indicators\<close> returns, with \<open>series\<close> set or not, its \<open>var\<close> is a
  tensor of two dimensions: the quotient of the variance by the long moving average,
  which has the shape (batch x L). So with \<open>series = False\<close> it is never of the shape
  (batch).
\<close>

theorem create_indicators_var_2d:
  assumes "create_indicators prices w series = Inr d"
  shows "\<exists>A. d ''var'' = Some (T2 A)"
proof -
  from assms obtain q malong var where "tdiv var malong = Inr q" "d ''var'' = Some (tmul q 100)"
    unfolding create_indicators_def Let_def
    by (elim bind_InrE) auto
  then show ?thesis
    using tdiv_T2 by (fastforce simp: tmul_def)
qed

theorem create_indicators_var_2d_witness:
  "\<exists>d A. create_indicators
       \<lparr>dtype = Float64,
        array = \<lparr>ncols = 6, rows = [[1, 2, 3, 4, 5, 6]]\<rparr>\<rparr> 6 False = Inr d \<and>
         d ''var'' = Some (T2 A)"
proof -
  obtain d where d: "create_indicators
       \<lparr>dtype = Float64,
        array = \<lparr>ncols = 6, rows = [[1, 2, 3, 4, 5, 6]]\<rparr>\<rparr> 6 False = Inr d"
    using example_latest_returns by blast
  from create_indicators_var_2d [OF d] d show ?thesis by blast
qed

text \<open>
  C5: for float64 prices of shape (batch x T) and a window \<open>w\<close> with \<open>6 \<le> w \<le> T\<close> (the windows
  for which every moving average is defined), \<open>create_indicators\<close> with
  \<open>series = True\<close> returns the four indicators \<open>macd1\<close>, \<open>macd2\<close>, \<open>pct\<close> and \<open>var\<close> as
  tensors of the same shape (batch x (T - w + 1)), and entry \<open>t\<close> of each of them is
  computed from the prices of the row that end at the same index \<open>w - 1 + t\<close>: the means
  of the last \<open>w div 6\<close>, \<open>w div 3\<close>, \<open>w div 2\<close> and \<open>w\<close> prices, the last two prices, and the
  variance of the last \<open>w\<close> prices.
\<close>

theorem create_indicators_series_aligned:
  assumes "wf2 prices" "6 \<le> w" "w \<le> int (ncols prices)"
  shows "\<exists>m1 m2 pc vr.
     create_indicators \<lparr>dtype = Float64, array = prices\<rparr> w True =
       Inr [''macd1'' \<mapsto> T2 m1, ''macd2'' \<mapsto> T2 m2, ''pct'' \<mapsto> T2 pc, ''var'' \<mapsto> T2 vr] \<and>
     (\<forall>A \<in> set [m1, m2, pc, vr].
        wf2 A \<and> nrows A = nrows prices \<and> ncols A = ncols prices - nat w + 1) \<and>
     (\<forall>b < nrows prices. \<forall>t < ncols prices - nat w + 1.
        rows m1 ! b ! t = macd_at (rows prices ! b) (nat w - 1 + t) (nat w div 6) (nat w div 2) \<and>
        rows m2 ! b ! t = macd_at (rows prices ! b) (nat w - 1 + t) (nat w div 3) (nat w) \<and>
        rows pc ! b ! t = pct_at (rows prices ! b) (nat w - 1 + t) \<and>
        rows vr ! b ! t = var_at (rows prices ! b) (nat w - 1 + t) (nat w))"
  unfolding create_indicators_series [OF assms]
  by (intro exI conjI, rule refl) simp_all

theorem create_indicators_series_aligned_witness:
  "\<exists>m1 m2 pc vr.
     create_indicators
       \<lparr>dtype = Float64,
        array = \<lparr>ncols = 7, rows = [[1,2,3,4,5,6,7],[2,4,4,8,10,12,14]]\<rparr>\<rparr> 6 True =
       Inr [''macd1'' \<mapsto> T2 m1, ''macd2'' \<mapsto> T2 m2, ''pct'' \<mapsto> T2 pc, ''var'' \<mapsto> T2 vr] \<and>
     ncols m1 = 2 \<and> ncols m2 = 2 \<and> ncols pc = 2 \<and> ncols vr = 2 \<and>
     rows m1 ! 0 ! 0 = Fin 20 \<and> rows m2 ! 0 ! 0 = Fin (400 / 7) \<and>
     rows pc ! 0 ! 0 = Fin 20 \<and> rows vr ! 0 ! 0 = Fin 100 \<and>
     rows m1 ! 1 ! 1 = Fin (50 / 3) \<and> rows m2 ! 1 ! 1 = Fin 50 \<and>
     rows pc ! 1 ! 1 = Fin (50 / 3) \<and> rows vr ! 1 ! 1 = Fin (2560 / 13)"
proof -
  let ?P = "\<lparr>ncols = 7, rows = [[1,2,3,4,5,6,7],[2,4,4,8,10,12,14::real]]\<rparr>"
  have h1: "wf2 ?P" by (simp add: wf2_def)
  have h2: "(6::int) \<le> 6" by simp
  have h3: "6 \<le> int (ncols ?P)" by simp
  from create_indicators_series_aligned [OF h1 h2 h3] obtain m1 m2 pc vr where
    eq: "create_indicators \<lparr>dtype = Float64, array = ?P\<rparr> 6 True =
       Inr [''macd1'' \<mapsto> T2 m1, ''macd2'' \<mapsto> T2 m2, ''pct'' \<mapsto> T2 pc, ''var'' \<mapsto> T2 vr]"
    and sh: "\<forall>A \<in> set [m1, m2, pc, vr].
        wf2 A \<and> nrows A = nrows ?P \<and> ncols A = ncols ?P - nat 6 + 1"
    and el: "\<And>b t. b < nrows ?P \<Longrightarrow> t < ncols ?P - nat 6 + 1 \<Longrightarrow>
        rows m1 ! b ! t = macd_at (rows ?P ! b) (nat 6 - 1 + t) (nat 6 div 6) (nat 6 div 2) \<and>
        rows m2 ! b ! t = macd_at (rows ?P ! b) (nat 6 - 1 + t) (nat 6 div 3) (nat 6) \<and>
        rows pc ! b ! t = pct_at (rows ?P ! b) (nat 6 - 1 + t) \<and>
        rows vr ! b ! t = var_at (rows ?P ! b) (nat 6 - 1 + t) (nat 6)"
    by blast
  have c: "ncols m1 = 2" "ncols m2 = 2" "ncols pc = 2" "ncols vr = 2"
    using sh by simp_all
  have e0: "rows m1 ! 0 ! 0 = Fin 20 \<and> rows m2 ! 0 ! 0 = Fin (400 / 7) \<and>
     rows pc ! 0 ! 0 = Fin 20 \<and> rows vr ! 0 ! 0 = Fin 100"
    using el [of 0 0]
    by (simp add: nrows_def macd_at_def pct_at_def var_at_def window_mean_def window_def
        var_unbiased_def power2_eq_square)
  have e1: "rows m1 ! 1 ! 1 = Fin (50 / 3) \<and> rows m2 ! 1 ! 1 = Fin 50 \<and>
     rows pc ! 1 ! 1 = Fin (50 / 3) \<and> rows vr ! 1 ! 1 = Fin (2560 / 13)"
    using el [of 1 1]
    by (simp add: nrows_def macd_at_def pct_at_def var_at_def window_mean_def window_def
        var_unbiased_def power2_eq_square)
  show ?thesis
    using eq c e0 e1 by blast
qed

text \<open>
  C7: no guard stands before the divisions by the long moving average. Where the mean of
  the \<open>w div 2\<close> prices that end at an index is zero, the entry of \<open>macd1\<close> there is a
  quotient by zero; where the mean of the \<open>w\<close> prices is zero, so are the entries of
  \<open>macd2\<close> and of \<open>var\<close>. The call raises nothing and returns these values, which are no
  finite numbers. Float64 prices that are all zero are such an input.
\<close>

theorem create_indicators_zero_divisor:
  assumes "wf2 prices" "6 \<le> w" "w \<le> int (ncols prices)"
    and "b < nrows prices" "t < ncols prices - nat w + 1"
  shows "\<exists>m1 m2 pc vr.
     create_indicators \<lparr>dtype = Float64, array = prices\<rparr> w True =
       Inr [''macd1'' \<mapsto> T2 m1, ''macd2'' \<mapsto> T2 m2, ''pct'' \<mapsto> T2 pc, ''var'' \<mapsto> T2 vr] \<and>
     (window_mean (rows prices ! b) (nat w - 1 + t) (nat w div 2) = 0 \<longrightarrow>
        rows m1 ! b ! t = NotFinite) \<and>
     (window_mean (rows prices ! b) (nat w - 1 + t) (nat w) = 0 \<longrightarrow>
        rows m2 ! b ! t = NotFinite \<and> rows vr ! b ! t = NotFinite)"
  unfolding create_indicators_series [OF assms(1-3)]
  by (intro exI conjI, rule refl)
    (use assms(4,5) in \<open>simp_all add: macd_at_def var_at_def fmul_fdiv_zero\<close>)

theorem create_indicators_zero_divisor_witness:
  "\<exists>m1 m2 pc vr.
     create_indicators
       \<lparr>dtype = Float64,
        array = \<lparr>ncols = 6, rows = [[0, 0, 0, 0, 0, 0]]\<rparr>\<rparr> 6 True =
       Inr [''macd1'' \<mapsto> T2 m1, ''macd2'' \<mapsto> T2 m2, ''pct'' \<mapsto> T2 pc, ''var'' \<mapsto> T2 vr] \<and>
     rows m1 ! 0 ! 0 = NotFinite \<and> rows m2 ! 0 ! 0 = NotFinite \<and> rows vr ! 0 ! 0 = NotFinite"
proof -
  let ?Z = "\<lparr>ncols = 6, rows = [[0, 0, 0, 0, 0, 0 :: real]]\<rparr>"
  have h1: "wf2 ?Z" by (simp add: wf2_def)
  have h2: "(6::int) \<le> 6" by simp
  have h3: "6 \<le> int (ncols ?Z)" by simp
  have h4: "0 < nrows ?Z" by (simp add: nrows_def)
  have h5: "0 < ncols ?Z - nat 6 + 1" by simp
  have z2: "window_mean (rows ?Z ! 0) (nat 6 - 1 + 0) (nat 6 div 2) = 0"
    by (simp add: window_mean_def window_def)
  have z6: "window_mean (rows ?Z ! 0) (nat 6 - 1 + 0) (nat 6) = 0"
    by (simp add: window_mean_def window_def)
  show ?thesis
    using create_indicators_zero_divisor [OF h1 h2 h3 h4 h5] z2 z6 by blast
qed

text \<open>
  C1: with \<open>series = False\<close> every indicator is to be the most recent value of each batch
  element, a tensor of shape (batch). The code takes the last column of \<open>macd1\<close>, \<open>macd2\<close>
  and \<open>pct\<close> after their divisions. Of \<open>var\<close> it takes the last column of the variance
  only, and then divides by the whole trailing series of the long moving average, of
  shape (batch x L) with \<open>L = T - w + 1\<close>: the quotient is broadcast. For two rows of
  seven float64 prices and \<open>w = 6\<close> (batch = L = 2) \<open>var\<close> has the shape (2 x 2), and its entry
  (0, 1) divides the variance of row 1 by a mean of row 0; for one row of six prices it
  has the shape (1 x 1); for two rows of eight prices (batch = 2, L = 3) the call
  raises.
\<close>

theorem create_indicators_latest_var_shape:
  "(\<exists>d. create_indicators
       \<lparr>dtype = Float64,
        array = \<lparr>ncols = 7, rows = [[1,2,3,4,5,6,7],[2,4,4,8,10,12,14]]\<rparr>\<rparr> 6 False = Inr d \<and>
       d ''macd1'' = Some (T1 [Fin (50 / 3), Fin (50 / 3)]) \<and>
       d ''macd2'' = Some (T1 [Fin (400 / 9), Fin 50]) \<and>
       d ''pct'' = Some (T1 [Fin (50 / 3), Fin (50 / 3)]) \<and>
       d ''var'' = Some (T2 \<lparr>ncols = 2, rows = [[Fin 100, Fin (10240 / 27)],
                                                  [Fin (105 / 2), Fin (2560 / 13)]]\<rparr>)) \<and>
   (\<exists>d. create_indicators
       \<lparr>dtype = Float64,
        array = \<lparr>ncols = 6, rows = [[1,2,3,4,5,6]]\<rparr>\<rparr> 6 False = Inr d \<and>
       d ''macd1'' = Some (T1 [Fin 20]) \<and>
       d ''var'' = Some (T2 \<lparr>ncols = 1, rows = [[Fin 100]]\<rparr>)) \<and>
   create_indicators
       \<lparr>dtype = Float64,
        array = \<lparr>ncols = 8, rows = [[1,2,3,4,5,6,7,8],[2,4,4,8,10,12,14,16]]\<rparr>\<rparr> 6 False
     = Inl RuntimeError"
  by (simp add: create_indicators_def Let_def moving_average_def conv1d_def conv_row_def int_quot_def
      slice_from_def slice_to_def clamp_index_def ewise2_def nrows_def expand_def bdim_def latest_def
      select_last_def tmul_def tdiv_def percent_change_def map2d_def unfold_def var_dim1_def
      var_unbiased_def unsqueeze0_def upt_rec power2_eq_square sum_list_mult_replicate)

subsection \<open>The predictor network\<close>










lemma create_net_finput:
  "create_net [ic, 8, 16, 16] False v =
     [Linear (nn_Linear ic 8 (fst (v 0))), BatchNorm1d (nn_BatchNorm1d 8 (snd (v 0))), ReLU,
      Linear (nn_Linear 8 16 (fst (v 1))), BatchNorm1d (nn_BatchNorm1d 16 (snd (v 1))), ReLU,
      Linear (nn_Linear 16 16 (fst (v 2))), BatchNorm1d (nn_BatchNorm1d 16 (snd (v 2))), ReLU]"
  by (simp add: create_net_def upt_rec numeral_2_eq_2)















lemma forward_other_dtype:
  assumes "dtype t \<noteq> Float32"
  shows "forward ((init ic False vin vout vgru)\<lparr>training := train\<rparr>) (X2 t) = Inl RuntimeError"
  using assms
  by (simp add: forward_def init_def Let_def create_net_finput linear_forward_def)




subsection \<open>The indicators of the latest step\<close>

lemma conv1d_InrD:
  "conv1d A kern = Inr y \<Longrightarrow>
   1 \<le> length (array kern) \<and> length (array kern) \<le> ncols (array A)"
  by (cases "array kern") (auto simp: conv1d_def Let_def split: if_splits)

lemma moving_average_InrD:
  "moving_average prices w = Inr y \<Longrightarrow> 1 \<le> w \<and> w \<le> int (ncols (array prices))"
  by (auto simp: moving_average_def Let_def dest!: conv1d_InrD)

text \<open>
  X3: \<open>create_indicators\<close> returns only for a window \<open>w\<close> with \<open>6 \<le> w \<le> T\<close>: a smaller
  window has no short moving average (\<open>int(w/6) = 0\<close>), a longer one no long moving
  average.
\<close>

theorem create_indicators_defined:
  assumes "create_indicators prices w series = Inr d"
  shows "6 \<le> w \<and> w \<le> int (ncols (array prices))"
proof -
  from assms obtain y1 y2 where "moving_average prices (int_quot w 6) = Inr y1"
    "moving_average prices w = Inr y2"
    unfolding create_indicators_def Let_def by (elim bind_InrE) auto
  then have "1 \<le> int_quot w 6" "w \<le> int (ncols (array prices))"
    by (auto dest: moving_average_InrD)
  then show ?thesis
    by (auto simp: int_quot_def split: if_splits)
qed

theorem create_indicators_defined_witness:
  "(6::int) \<le> 6 \<and> 6 \<le> int (ncols \<lparr>ncols = 6, rows = [[1, 2, 3, 4, 5, 6 :: real]]\<rparr>)"
proof -
  let ?P = "\<lparr>dtype = Float64, array = \<lparr>ncols = 6, rows = [[1, 2, 3, 4, 5, 6 :: real]]\<rparr>\<rparr>"
  obtain d where d: "create_indicators ?P 6 False = Inr d"
    using example_latest_returns by blast
  from create_indicators_defined [OF d] show ?thesis by simp
qed

text \<open>
  Nor does it return for a batch that is not empty of prices that are not float64: the
  first moving average raises.
\<close>

lemma create_indicators_other_dtype:
  assumes "nrows (array prices) \<noteq> 0" "dtype prices \<noteq> Float64"
  shows "create_indicators prices w series = Inl RuntimeError"
  by (simp add: create_indicators_def Let_def moving_average_other_dtype [OF assms])

lemma select_last_tabulate:
  assumes "1 \<le> L"
  shows "select_last (tabulate2 n L F) = Inr (map (\<lambda>b. F b (L - 1)) [0 ..< n])"
proof -
  have "last (map (F b) [0 ..< L]) = F b (L - 1)" for b
    using assms by (simp add: last_map)
  then show ?thesis using assms
    by (simp add: select_last_def) (simp add: tabulate2_def)
qed

lemma latest_last_tabulate:
  assumes "1 \<le> L"
  shows "latest False (tabulate2 n L F) = Inr (T1 (map (\<lambda>b. F b (L - 1)) [0 ..< n]))"
  by (simp add: latest_def select_last_tabulate [OF assms])

lemma tmul_T1: "tmul (T1 (map V ns)) k = T1 (map (\<lambda>b. fmul (V b) k) ns)"
  by (simp add: tmul_def)

lemma tdiv_T1_tabulate:
  assumes "1 \<le> L"
  shows "tdiv (T1 (map V [0 ..< n])) (tabulate2 n L G) =
     (if n = L \<or> n = 1 \<or> L = 1
      then Inr (T2 (tabulate2 n (if n = 1 then L else n)
                     (\<lambda>b t. fdiv (V (if n = 1 then 0 else t)) (G b (if L = 1 then 0 else t)))))
      else Inl RuntimeError)"
proof -
  consider "n = L" | "n \<noteq> L" "n = 1" | "n \<noteq> L" "n \<noteq> 1" "L = 1" | "n \<noteq> L" "n \<noteq> 1" "L \<noteq> 1"
    by blast
  then show ?thesis
  proof cases
    case 1
    then show ?thesis
      by (auto simp: tdiv_def ewise2_def unsqueeze0_def bdim_def expand_def tabulate2_def nrows_def
          map2_upt zip_replicate1 intro!: nth_equalityI)
  next
    case 2
    then show ?thesis
      by (auto simp: tdiv_def ewise2_def unsqueeze0_def bdim_def expand_def tabulate2_def nrows_def
          map2_upt intro!: nth_equalityI)
  next
    case 3
    then show ?thesis
      by (auto simp: tdiv_def ewise2_def unsqueeze0_def bdim_def expand_def tabulate2_def nrows_def
          map2_upt intro!: nth_equalityI)
  next
    case 4
    then show ?thesis
      by (auto simp: tdiv_def ewise2_def unsqueeze0_def bdim_def expand_def tabulate2_def nrows_def)
  qed
qed

text \<open>
  X4: what \<open>create_indicators\<close> does with \<open>series = False\<close>, for float64 prices of shape
  (batch x T) and \<open>6 \<le> w \<le> T\<close>, with \<open>L = T - w + 1\<close>. It raises unless batch = L, batch = 1
  or L = 1. When it returns, \<open>macd1\<close>, \<open>macd2\<close> and \<open>pct\<close> have the shape (batch) and hold, for
  each batch element, the value computed from the prices that end at the last index
  \<open>T - 1\<close>. Its \<open>var\<close> has two dimensions: entry (b, t) is the latest variance of batch
  element \<open>t\<close> (of element 0 when batch = 1) divided by entry \<open>t\<close> of the long moving average
  of batch element \<open>b\<close> (by its only entry when L = 1).
\<close>

theorem create_indicators_latest:
  fixes prices :: "real tensor2"
  assumes "wf2 prices" "6 \<le> w" "w \<le> int (ncols prices)"
  defines "W \<equiv> nat w"
  defines "L \<equiv> ncols prices - W + 1"
  defines "n \<equiv> nrows prices"
  defines "row \<equiv> \<lambda>b. rows prices ! b"
  defines "e \<equiv> ncols prices - 1"
  shows "create_indicators \<lparr>dtype = Float64, array = prices\<rparr> w False =
     (if n = L \<or> n = 1 \<or> L = 1
      then Inr [''macd1'' \<mapsto> T1 (map (\<lambda>b. macd_at (row b) e (W div 6) (W div 2)) [0 ..< n]),
                ''macd2'' \<mapsto> T1 (map (\<lambda>b. macd_at (row b) e (W div 3) W) [0 ..< n]),
                ''pct'' \<mapsto> T1 (map (\<lambda>b. pct_at (row b) e) [0 ..< n]),
                ''var'' \<mapsto> T2 (tabulate2 n (if n = 1 then L else n)
                   (\<lambda>b t. fmul (fdiv (var_unbiased (window (row (if n = 1 then 0 else t)) e W))
                                      (window_mean (row b) (W - 1 + (if L = 1 then 0 else t)) W))
                                100))]
      else Inl RuntimeError)"
proof -
  have L: "1 \<le> L" by (simp add: L_def)
  have e: "W - 1 + (L - 1) = e"
    using assms(2,3) by (simp add: L_def e_def W_def)
  show ?thesis
    unfolding create_indicators_rows [OF assms(1-3)] W_def [symmetric] L_def [symmetric]
      n_def [symmetric] row_def [symmetric]
    by (simp only: latest_last_tabulate [OF L] bind_Inr bind_Inl tmul_T1 tdiv_T1_tabulate [OF L] e
        macd_at_def pct_at_def tmul_T2_tabulate if_distrib [of "\<lambda>m. bind m _"] cong: if_cong)
qed

theorem create_indicators_latest_witness:
  "create_indicators
       \<lparr>dtype = Float64,
        array = \<lparr>ncols = 7, rows = [[1,2,3,4,5,6,7],[2,4,4,8,10,12,14]]\<rparr>\<rparr> 6 False =
     Inr [''macd1'' \<mapsto> T1 [Fin (50 / 3), Fin (50 / 3)],
          ''macd2'' \<mapsto> T1 [Fin (400 / 9), Fin 50],
          ''pct'' \<mapsto> T1 [Fin (50 / 3), Fin (50 / 3)],
          ''var'' \<mapsto> T2 \<lparr>ncols = 2, rows = [[Fin 100, Fin (10240 / 27)],
                                             [Fin (105 / 2), Fin (2560 / 13)]]\<rparr>]"
proof -
  let ?P = "\<lparr>ncols = 7, rows = [[1,2,3,4,5,6,7],[2,4,4,8,10,12,14::real]]\<rparr>"
  have h1: "wf2 ?P" by (simp add: wf2_def)
  have h2: "(6::int) \<le> 6" by simp
  have h3: "6 \<le> int (ncols ?P)" by simp
  show ?thesis
    unfolding create_indicators_latest [OF h1 h2 h3]
    by (simp add: nrows_def macd_at_def pct_at_def window_mean_def window_def var_unbiased_def
        tabulate2_def upt_rec power2_eq_square numeral_2_eq_2 [symmetric])
qed

end
